theory Spec2Isabelle
  imports Main
begin

section \<open>Python values used by the storage facade\<close>

text \<open>
  A backend identifier is the configuration value handed to \<open>get_storage_class\<close>: normally
  a dotted class path (a string). The code also indexes its failure dictionary with the
  integer literal \<open>0\<close>, so dictionary keys are strings or integers.
\<close>

datatype pykey = KStr string | KInt int

text \<open>
  Exceptions: the class and the text that \<open>str(e)\<close> gives. Only subclasses of
  \<open>Exception\<close> are modelled (every \<open>except Exception\<close> of the source catches them all);
  \<open>BackendError c\<close> stands for any other class \<open>c\<close> a backend raises, none of them a
  subclass of \<open>AttributeError\<close>.
\<close>

datatype exn_class =
    AttributeError | KeyError | IndexError | StopIteration | TypeError
  | ImproperlyConfigured | PlainException | BackendError string

datatype exn = Exn (exn_class: exn_class) (exn_str: string)

text \<open>
  What \<open>read()\<close> returns: \<open>bytes\<close> or \<open>str\<close>, whatever mode was asked for.
\<close>

datatype pydata = Bytes string | Text string

text \<open>
  File objects. \<open>File name r\<close> is a handle a backend returns: \<open>r\<close> is what \<open>read()\<close>
  does on it (raise, or return the whole content). \<open>ContentFile content name\<close> and
  \<open>BytesIO content\<close> are the in-memory objects the facade builds itself.
  \<open>ContentFile\<close> takes bytes or text; \<open>BytesIO(content)\<close> raises \<open>TypeError\<close> on text.
\<close>

datatype pyfile =
    File string "exn + pydata"
  | ContentFile pydata string
  | BytesIO string

text \<open>Truthiness: a Django \<open>File\<close> is true when its name is non-empty; the others always.\<close>

fun file_bool :: "pyfile \<Rightarrow> bool" where
  "file_bool (File name r) = (name \<noteq> [])"
| "file_bool (ContentFile content name) = True"
| "file_bool (BytesIO content) = True"

fun py_bool :: "pyfile option \<Rightarrow> bool" where
  "py_bool None = False"
| "py_bool (Some f) = file_bool f"

fun file_read :: "pyfile \<Rightarrow> exn + pydata" where
  "file_read (File name r) = r"
| "file_read (ContentFile content name) = Inr content"
| "file_read (BytesIO content) = Inr (Bytes content)"

fun new_BytesIO :: "pydata \<Rightarrow> exn + pyfile" where
  "new_BytesIO (Bytes content) = Inr (BytesIO content)"
| "new_BytesIO (Text content) =
     Inl (Exn TypeError (''a bytes-like object is required, not '' @ [CHR 0x27] @ ''str'' @ [CHR 0x27]))"

subsection \<open>Text formatting\<close>

definition digit_char :: "nat \<Rightarrow> char" where
  "digit_char d = ''0123456789'' ! (d mod 10)"

fun str_nat :: "nat \<Rightarrow> string" where
  "str_nat n = (if n < 10 then [digit_char n] else str_nat (n div 10) @ [digit_char (n mod 10)])"

definition str_int :: "int \<Rightarrow> string" where
  "str_int i = (if i < 0 then CHR ''-'' # str_nat (nat (- i)) else str_nat (nat i))"

fun str_key :: "pykey \<Rightarrow> string" where
  "str_key (KStr s) = s"
| "str_key (KInt i) = str_int i"

text \<open>\<open>sep.join(xs)\<close>\<close>

fun join :: "string \<Rightarrow> string list \<Rightarrow> string" where
  "join sep [] = []"
| "join sep [x] = x"
| "join sep (x # y # ys) = x @ sep @ join sep (y # ys)"

definition newline :: string where
  "newline = [CHR 0x0A]"

definition quote :: string where
  "quote = [CHR 0x27]"

subsection \<open>The failure dictionary\<close>

text \<open>
  A Python \<open>dict\<close> keeps insertion order; assigning to a key that is present replaces the
  value and leaves the key where it is. \<open>exceptions[k]\<close> raises \<open>KeyError(k)\<close> for a
  missing key.
\<close>

type_synonym exceptions = "(pykey \<times> exn) list"

fun dict_setitem :: "exceptions \<Rightarrow> pykey \<Rightarrow> exn \<Rightarrow> exceptions" where
  "dict_setitem [] k v = [(k, v)]"
| "dict_setitem ((k', v') # d) k v =
     (if k' = k then (k, v) # d else (k', v') # dict_setitem d k v)"

definition dict_getitem :: "exceptions \<Rightarrow> pykey \<Rightarrow> exn + exn" where
  "dict_getitem d k =
     (case map_of d k of
        None \<Rightarrow> Inl (Exn KeyError (str_key k))
      | Some v \<Rightarrow> Inr v)"

text \<open>
  \<open>concatenate_exceptions\<close>: the loop variables are named as in the source,
  \<open>for e, b in exceptions.items()\<close>, so \<open>e\<close> is the key and \<open>b\<close> the value, and the line is
  \<open>"{0}: {1}".format(b, e)\<close>.
\<close>

definition concatenate_exceptions :: "exceptions \<Rightarrow> string" where
  "concatenate_exceptions exceptions =
     join newline (map (\<lambda>(e, b). exn_str b @ '': '' @ str_key e) exceptions)"

text \<open>
  The tail shared by every dispatch once some failure was recorded:
  \<open>if len(exceptions) == 1: raise exceptions[0]\<close>, else
  \<open>raise Exception(concatenate_exceptions(exceptions))\<close>. The value is the exception raised.
\<close>

definition raise_exceptions :: "exceptions \<Rightarrow> exn" where
  "raise_exceptions exceptions =
     (if length exceptions = 1
      then (case dict_getitem exceptions (KInt 0) of Inl err \<Rightarrow> err | Inr e \<Rightarrow> e)
      else Exn PlainException (concatenate_exceptions exceptions))"

section \<open>Backends\<close>

text \<open>
  A backend method takes its arguments and the state of the outside world (the storage
  the backends are proxies of) and raises or returns, leaving a new world. A backend
  exposes any subset of the operations: \<open>hasattr(backend, name)\<close> is the field being
  \<open>Some\<close>. \<open>open\<close> takes the name and the \<open>mode\<close> keyword when it is passed.
\<close>

type_synonym ('a, 'r, 'w) pymethod = "'a \<Rightarrow> 'w \<Rightarrow> (exn + 'r) \<times> 'w"

record 'w backend =
  b__open :: "(string \<times> string, pyfile option, 'w) pymethod option"
  b__save :: "(string \<times> pyfile, string, 'w) pymethod option"
  b_delete :: "(string, unit, 'w) pymethod option"
  b_size :: "(string, int, 'w) pymethod option"
  b_accessed_time :: "(string, int, 'w) pymethod option"
  b_created_time :: "(string, int, 'w) pymethod option"
  b_modified_time :: "(string, int, 'w) pymethod option"
  b_get_valid_name :: "(string, string, 'w) pymethod option"
  b_get_available_name :: "(string, string, 'w) pymethod option"
  b_path :: "(string, string, 'w) pymethod option"
  b_exists :: "(string, bool, 'w) pymethod option"
  b_listdir :: "(string, string list \<times> string list, 'w) pymethod option"
  b_url :: "(string, string, 'w) pymethod option"
  b_open :: "(string \<times> string option, pyfile option, 'w) pymethod option"
  b_save :: "(string \<times> pyfile, string, 'w) pymethod option"

section \<open>The facade\<close>

record settings =
  FALLBACK_STORAGES :: "pykey list option"
  FALLBACK_DATA_MIGRATION :: "bool option"

record storage =
  backend_classes :: "pykey list"
  in_data_migration :: bool

text \<open>
  \<open>__init__(self, backends=None)\<close>. A missing setting raises \<open>AttributeError\<close> and an
  empty one fails the \<open>assert\<close>; both become \<open>ImproperlyConfigured\<close>. A list that is
  passed in is stored as it is.
\<close>

definition FallbackStorage_init :: "settings \<Rightarrow> pykey list option \<Rightarrow> exn + storage" where
  "FallbackStorage_init stg backends =
     (let mig = (case FALLBACK_DATA_MIGRATION stg of None \<Rightarrow> False | Some m \<Rightarrow> m);
          missing = Exn ImproperlyConfigured
                      ''The setting `FALLBACK_STORAGES` is either missing or empty''
      in case backends of
           None \<Rightarrow>
             (case FALLBACK_STORAGES stg of
                None \<Rightarrow> Inl missing
              | Some bs \<Rightarrow>
                  if bs = [] then Inl missing
                  else Inr \<lparr>backend_classes = bs, in_data_migration = mig\<rparr>)
         | Some bs \<Rightarrow> Inr \<lparr>backend_classes = bs, in_data_migration = mig\<rparr>)"

text \<open>
  \<open>get_storage_class(backend_class)()\<close> is Django's; it is the parameter \<open>gsc\<close> of
  everything below. Backends are instantiated afresh on every call and keep no state of
  their own: what they store is in the world.
\<close>

definition get_backends :: "(pykey \<Rightarrow> 'w backend) \<Rightarrow> storage \<Rightarrow> (pykey \<times> 'w backend) list" where
  "get_backends gsc self = map (\<lambda>backend_class. (backend_class, gsc backend_class)) (backend_classes self)"

text \<open>\<open>next(self.get_backends())\<close> raises \<open>StopIteration\<close> on an empty list.\<close>

definition get_primary_backend :: "(pykey \<Rightarrow> 'w backend) \<Rightarrow> storage \<Rightarrow> exn + 'w backend" where
  "get_primary_backend gsc self =
     (case get_backends gsc self of
        [] \<Rightarrow> Inl (Exn StopIteration [])
      | (backend_class, backend) # rest \<Rightarrow> Inr backend)"

text \<open>
  \<open>get_backend_methods(method_name)\<close>: \<open>attr\<close> is the attribute lookup for
  \<open>method_name\<close> (\<open>hasattr\<close> and \<open>getattr\<close> together).
\<close>

fun backend_methods :: "('w backend \<Rightarrow> 'm option) \<Rightarrow> (pykey \<times> 'w backend) list \<Rightarrow> (pykey \<times> 'm) list" where
  "backend_methods attr [] = []"
| "backend_methods attr ((backend_class, backend) # rest) =
     (case attr backend of
        None \<Rightarrow> backend_methods attr rest
      | Some m \<Rightarrow> (backend_class, m) # backend_methods attr rest)"

definition get_backend_methods ::
  "(pykey \<Rightarrow> 'w backend) \<Rightarrow> storage \<Rightarrow> ('w backend \<Rightarrow> 'm option) \<Rightarrow> (pykey \<times> 'm) list" where
  "get_backend_methods gsc self attr = backend_methods attr (get_backends gsc self)"

text \<open>
  How a scan over the backends ends: it returned a value, it let an exception escape, or
  it reached the end of the loop with the failures recorded so far.
\<close>

datatype 'r scan = Return 'r | Raise exn | Fallthrough exceptions

subsection \<open>\<open>fallback_method\<close>\<close>

fun fallback_loop ::
  "(pykey \<times> ('a, 'r, 'w) pymethod) list \<Rightarrow> 'a \<Rightarrow> exceptions \<Rightarrow> 'w \<Rightarrow> 'r scan \<times> 'w" where
  "fallback_loop [] args exceptions w = (Fallthrough exceptions, w)"
| "fallback_loop ((backend_class, backend_method) # rest) args exceptions w =
     (case backend_method args w of
        (Inr v, w') \<Rightarrow> (Return v, w')
      | (Inl e, w') \<Rightarrow> fallback_loop rest args (dict_setitem exceptions backend_class e) w')"

definition fallback_method ::
  "string \<Rightarrow> ('w backend \<Rightarrow> ('a, 'r, 'w) pymethod option) \<Rightarrow>
   (pykey \<Rightarrow> 'w backend) \<Rightarrow> storage \<Rightarrow> 'a \<Rightarrow> 'w \<Rightarrow> (exn + 'r) \<times> 'w" where
  "fallback_method method_name attr gsc self args w =
     (case fallback_loop (get_backend_methods gsc self attr) args [] w of
        (Return v, w') \<Rightarrow> (Inr v, w')
      | (Raise e, w') \<Rightarrow> (Inl e, w')
      | (Fallthrough exceptions, w') \<Rightarrow>
          if exceptions \<noteq> [] then (Inl (raise_exceptions exceptions), w')
          else (Inl (Exn AttributeError
                  (''No backend has the method `'' @ method_name @ ''`'')), w'))"

definition FallbackStorage__open where
  "FallbackStorage__open = fallback_method ''_open'' b__open"

definition FallbackStorage__save where
  "FallbackStorage__save = fallback_method ''_save'' b__save"

definition FallbackStorage_delete where
  "FallbackStorage_delete = fallback_method ''delete'' b_delete"

definition FallbackStorage_size where
  "FallbackStorage_size = fallback_method ''size'' b_size"

definition FallbackStorage_accessed_time where
  "FallbackStorage_accessed_time = fallback_method ''accessed_time'' b_accessed_time"

definition FallbackStorage_created_time where
  "FallbackStorage_created_time = fallback_method ''created_time'' b_created_time"

definition FallbackStorage_modified_time where
  "FallbackStorage_modified_time = fallback_method ''modified_time'' b_modified_time"

definition FallbackStorage_get_valid_name where
  "FallbackStorage_get_valid_name = fallback_method ''get_valid_name'' b_get_valid_name"

definition FallbackStorage_get_available_name where
  "FallbackStorage_get_available_name =
     fallback_method ''get_available_name'' b_get_available_name"

definition FallbackStorage_path where
  "FallbackStorage_path = fallback_method ''path'' b_path"

subsection \<open>\<open>exists\<close>\<close>

fun exists_loop ::
  "(pykey \<times> ('a, bool, 'w) pymethod) list \<Rightarrow> 'a \<Rightarrow> exceptions \<Rightarrow> 'w \<Rightarrow> bool scan \<times> 'w" where
  "exists_loop [] args exceptions w = (Fallthrough exceptions, w)"
| "exists_loop ((backend_class, backend_method) # rest) args exceptions w =
     (case backend_method args w of
        (Inr result, w') \<Rightarrow>
          if result then (Return True, w') else exists_loop rest args exceptions w'
      | (Inl e, w') \<Rightarrow> exists_loop rest args (dict_setitem exceptions backend_class e) w')"

definition FallbackStorage_exists ::
  "(pykey \<Rightarrow> 'w backend) \<Rightarrow> storage \<Rightarrow> string \<Rightarrow> 'w \<Rightarrow> (exn + bool) \<times> 'w" where
  "FallbackStorage_exists gsc self args w =
     (case exists_loop (get_backend_methods gsc self b_exists) args [] w of
        (Return v, w') \<Rightarrow> (Inr v, w')
      | (Raise e, w') \<Rightarrow> (Inl e, w')
      | (Fallthrough exceptions, w') \<Rightarrow>
          if exceptions \<noteq> [] then (Inl (raise_exceptions exceptions), w')
          else (Inr False, w'))"

subsection \<open>\<open>listdir\<close>\<close>

text \<open>\<open>any(xs)\<close> on a list of strings: some element is non-empty.\<close>

definition py_any :: "string list \<Rightarrow> bool" where
  "py_any xs = list_ex (\<lambda>x. x \<noteq> []) xs"

fun listdir_loop ::
  "(pykey \<times> ('a, string list \<times> string list, 'w) pymethod) list \<Rightarrow> 'a \<Rightarrow>
   string list \<Rightarrow> string list \<Rightarrow> exceptions \<Rightarrow> 'w \<Rightarrow>
   (string list \<times> string list \<times> exceptions) \<times> 'w" where
  "listdir_loop [] args directories files exceptions w = ((directories, files, exceptions), w)"
| "listdir_loop ((backend_class, backend_method) # rest) args directories files exceptions w =
     (case backend_method args w of
        (Inr (dirs, files'), w') \<Rightarrow>
          listdir_loop rest args (directories @ dirs) (files @ files') exceptions w'
      | (Inl e, w') \<Rightarrow>
          listdir_loop rest args directories files (dict_setitem exceptions backend_class e) w')"

definition FallbackStorage_listdir ::
  "(pykey \<Rightarrow> 'w backend) \<Rightarrow> storage \<Rightarrow> string \<Rightarrow> 'w \<Rightarrow>
   (exn + string list \<times> string list) \<times> 'w" where
  "FallbackStorage_listdir gsc self args w =
     (case listdir_loop (get_backend_methods gsc self b_listdir) args [] [] [] w of
        ((directories, files, exceptions), w') \<Rightarrow>
          if (py_any directories \<or> py_any files) \<or> \<not> (exceptions \<noteq> [])
          then (Inr (directories, files), w')
          else if exceptions \<noteq> [] then (Inl (raise_exceptions exceptions), w')
          else (Inl (Exn AttributeError ''No backend found with the method `listdir`''), w'))"

subsection \<open>\<open>url\<close>\<close>

text \<open>
  The scan of the non-migration branch. \<open>backend.exists(name)\<close> is called before the
  \<open>try\<close>, so what it raises leaves the loop; only \<open>backend.url(name)\<close> is inside it.
\<close>

fun url_loop ::
  "(pykey \<times> 'w backend) list \<Rightarrow> string \<Rightarrow> exceptions \<Rightarrow> 'w \<Rightarrow> string scan \<times> 'w" where
  "url_loop [] name exceptions w = (Fallthrough exceptions, w)"
| "url_loop ((backend_class, backend) # rest) name exceptions w =
     (case (b_url backend, b_exists backend) of
        (Some backend_url, Some backend_exists) \<Rightarrow>
          (case backend_exists name w of
             (Inl e, w') \<Rightarrow> (Raise e, w')
           | (Inr found, w') \<Rightarrow>
               if \<not> found then url_loop rest name exceptions w'
               else (case backend_url name w' of
                       (Inr u, w'') \<Rightarrow> (Return u, w'')
                     | (Inl e, w'') \<Rightarrow>
                         url_loop rest name (dict_setitem exceptions backend_class e) w''))
      | _ \<Rightarrow> url_loop rest name exceptions w)"

definition no_url_error :: exn where
  "no_url_error = Exn AttributeError ''No backend found with the method `url`''"

text \<open>
  \<open>self.backend_classes[-1]\<close> raises \<open>IndexError\<close> on an empty list. A backend
  without \<open>url\<close> makes \<open>last_backend.url\<close> raise \<open>AttributeError\<close> inside the \<open>try\<close>.
\<close>

definition url_last_backend ::
  "(pykey \<Rightarrow> 'w backend) \<Rightarrow> storage \<Rightarrow> string \<Rightarrow> 'w \<Rightarrow> (exn + string) \<times> 'w" where
  "url_last_backend gsc self name w =
     (if backend_classes self = [] then (Inl (Exn IndexError ''list index out of range''), w)
      else
        let last_backend = gsc (last (backend_classes self))
        in case b_url last_backend of
             None \<Rightarrow> (Inl no_url_error, w)
           | Some last_url \<Rightarrow>
               (case last_url name w of
                  (Inr u, w') \<Rightarrow> (Inr u, w')
                | (Inl e, w') \<Rightarrow>
                    if exn_class e = AttributeError then (Inl no_url_error, w')
                    else (Inl e, w')))"

definition FallbackStorage_url ::
  "(pykey \<Rightarrow> 'w backend) \<Rightarrow> storage \<Rightarrow> string \<Rightarrow> 'w \<Rightarrow> (exn + string) \<times> 'w" where
  "FallbackStorage_url gsc self name w =
     (if in_data_migration self then fallback_method ''url'' b_url gsc self name w
      else
        case url_loop (get_backends gsc self) name [] w of
          (Return u, w') \<Rightarrow> (Inr u, w')
        | (Raise e, w') \<Rightarrow> (Inl e, w')
        | (Fallthrough exceptions, w') \<Rightarrow>
            if exceptions \<noteq> [] then (Inl (raise_exceptions exceptions), w')
            else url_last_backend gsc self name w')"

subsection \<open>\<open>open\<close> and the copy into the primary backend\<close>

text \<open>
  \<open>logger.exception\<close> appends its message to the log (the traceback it adds is left
  out). \<open>__save_to_primary_backend\<close> never raises: it returns the stored name, or
  \<open>None\<close> after logging.
\<close>

definition save_failed_message :: "string \<Rightarrow> string" where
  "save_failed_message name =
     ''Unable to save file into the primary backend when fetched from other backend. Name=''
       @ quote @ name @ quote"

definition refetch_failed_message :: "string \<Rightarrow> string \<Rightarrow> string" where
  "refetch_failed_message mode name =
     ''Unable to save file into the primary backend when fetched from other backend. Mode=''
       @ quote @ mode @ quote @ '', name='' @ quote @ name @ quote"

definition save_to_primary_backend ::
  "(pykey \<Rightarrow> 'w backend) \<Rightarrow> storage \<Rightarrow> string \<Rightarrow> pyfile \<Rightarrow> 'w \<Rightarrow> string list \<Rightarrow>
   string option \<times> 'w \<times> string list" where
  "save_to_primary_backend gsc self name file_obj w log =
     (case get_primary_backend gsc self of
        Inl e \<Rightarrow> (None, w, log @ [save_failed_message name])
      | Inr backend \<Rightarrow>
          (case b_save backend of
             None \<Rightarrow> (None, w, log @ [save_failed_message name])
           | Some backend_save \<Rightarrow>
               (case backend_save (name, file_obj) w of
                  (Inr stored, w') \<Rightarrow> (Some stored, w', log)
                | (Inl e, w') \<Rightarrow> (None, w', log @ [save_failed_message name]))))"

text \<open>
  The loop of the migration branch. \<open>i\<close> is the counter of \<open>enumerate\<close> and \<open>result\<close>
  the variable of that name, which the final \<open>return result\<close> reads. The scan's value
  comes with the current \<open>result\<close>, the world and the log. Everything up to the call of
  \<open>__save_to_primary_backend\<close> is inside the outer \<open>try\<close>: what \<open>read()\<close> raises, and
  the \<open>TypeError\<close> of \<open>BytesIO(content)\<close> on text (raised after \<open>result\<close> was
  rebound to the \<open>ContentFile\<close>), are recorded as failures of that backend.
\<close>

fun open_loop ::
  "(pykey \<Rightarrow> 'w backend) \<Rightarrow> storage \<Rightarrow> nat \<Rightarrow>
   (pykey \<times> (string \<times> string option, pyfile option, 'w) pymethod) list \<Rightarrow>
   string \<Rightarrow> string \<Rightarrow> pyfile option \<Rightarrow> exceptions \<Rightarrow> 'w \<Rightarrow> string list \<Rightarrow>
   (pyfile option scan \<times> pyfile option) \<times> 'w \<times> string list" where
  "open_loop gsc self i [] name mode result exceptions w log =
     ((Fallthrough exceptions, result), w, log)"
| "open_loop gsc self i ((backend_class, backend_method) # rest) name mode result exceptions w log =
     (case backend_method (name, Some mode) w of
        (Inl e, w1) \<Rightarrow>
          open_loop gsc self (i + 1) rest name mode result
            (dict_setitem exceptions backend_class e) w1 log
      | (Inr result1, w1) \<Rightarrow>
          if py_bool result1 then
            if in_data_migration self \<and> i > 0 then
              if mode \<in> set [''rb'', ''br''] then
                (case file_read (the result1) of
                   Inl e \<Rightarrow>
                     open_loop gsc self (i + 1) rest name mode result1
                       (dict_setitem exceptions backend_class e) w1 log
                 | Inr content \<Rightarrow>
                     (case new_BytesIO content of
                        Inl e \<Rightarrow>
                          open_loop gsc self (i + 1) rest name mode
                            (Some (ContentFile content name))
                            (dict_setitem exceptions backend_class e) w1 log
                      | Inr file_obj \<Rightarrow>
                          (case save_to_primary_backend gsc self name file_obj w1 log of
                             (stored, w2, log2) \<Rightarrow>
                               ((Return (Some (ContentFile content name)),
                                 Some (ContentFile content name)), w2, log2))))
              else
                (case backend_method (name, None) w1 of
                   (Inl e, w2) \<Rightarrow>
                     ((Return result1, result1), w2, log @ [refetch_failed_message mode name])
                 | (Inr second_result, w2) \<Rightarrow>
                     if py_bool second_result then
                       (case save_to_primary_backend gsc self name (the second_result) w2 log of
                          (stored, w3, log3) \<Rightarrow> ((Return result1, result1), w3, log3))
                     else ((Return result1, result1), w2, log))
            else ((Return result1, result1), w1, log)
          else open_loop gsc self (i + 1) rest name mode result1 exceptions w1 log)"

definition FallbackStorage_open ::
  "(pykey \<Rightarrow> 'w backend) \<Rightarrow> storage \<Rightarrow> string \<Rightarrow> string \<Rightarrow> 'w \<Rightarrow> string list \<Rightarrow>
   (exn + pyfile option) \<times> 'w \<times> string list" where
  "FallbackStorage_open gsc self name mode w log =
     (if in_data_migration self then
        (case open_loop gsc self 0 (get_backend_methods gsc self b_open) name mode
                None [] w log of
           ((Return v, result), w', log') \<Rightarrow> (Inr v, w', log')
         | ((Raise e, result), w', log') \<Rightarrow> (Inl e, w', log')
         | ((Fallthrough exceptions, result), w', log') \<Rightarrow>
             if exceptions \<noteq> [] then (Inl (raise_exceptions exceptions), w', log')
             else (Inr result, w', log'))
      else
        (case fallback_method ''open'' b_open gsc self (name, Some mode) w of
           (r, w') \<Rightarrow> (r, w', log)))"

section \<open>Observing a dispatch\<close>

text \<open>
  Specification-level functions, not part of the source: they say what the backends do,
  so that the properties of the dispatch loops can be stated against them.
  \<open>consult_all\<close> invokes every method of the list once, in order, threading the world,
  and lists what each one answered. \<open>record_failures\<close> stores the failures among such
  answers in a dictionary, in that order.
\<close>

fun consult_all ::
  "(pykey \<times> ('a, 'r, 'w) pymethod) list \<Rightarrow> 'a \<Rightarrow> 'w \<Rightarrow> (pykey \<times> (exn + 'r)) list \<times> 'w" where
  "consult_all [] args w = ([], w)"
| "consult_all ((backend_class, backend_method) # rest) args w =
     (case backend_method args w of
        (r, w') \<Rightarrow> (case consult_all rest args w' of (rs, w'') \<Rightarrow> ((backend_class, r) # rs, w'')))"

fun record_failures :: "exceptions \<Rightarrow> (pykey \<times> (exn + 'r)) list \<Rightarrow> exceptions" where
  "record_failures d [] = d"
| "record_failures d ((k, Inl e) # rest) = record_failures (dict_setitem d k e) rest"
| "record_failures d ((k, Inr v) # rest) = record_failures d rest"

text \<open>
  \<open>failures_of\<close> keeps the failures among such answers, \<open>record_all\<close> stores a list of
  failures in a dictionary one after the other.
\<close>

fun failures_of :: "(pykey \<times> (exn + 'r)) list \<Rightarrow> (pykey \<times> exn) list" where
  "failures_of [] = []"
| "failures_of ((k, Inl e) # rest) = (k, e) # failures_of rest"
| "failures_of ((k, Inr v) # rest) = failures_of rest"

fun record_all :: "exceptions \<Rightarrow> (pykey \<times> exn) list \<Rightarrow> exceptions" where
  "record_all d [] = d"
| "record_all d ((k, e) # rest) = record_all (dict_setitem d k e) rest"

text \<open>
  The failures that the scan of \<open>url\<close> meets, in order: what \<open>backend.url(name)\<close> raised
  on the backends that have \<open>url\<close> and \<open>exists\<close> and said the name exists. The list ends
  where the scan ends (a URL was built, or \<open>exists\<close> raised).
\<close>

fun url_failures :: "(pykey \<times> 'w backend) list \<Rightarrow> string \<Rightarrow> 'w \<Rightarrow> (pykey \<times> exn) list" where
  "url_failures [] name w = []"
| "url_failures ((backend_class, backend) # rest) name w =
     (case (b_url backend, b_exists backend) of
        (Some backend_url, Some backend_exists) \<Rightarrow>
          (case backend_exists name w of
             (Inl e, w') \<Rightarrow> []
           | (Inr found, w') \<Rightarrow>
               if \<not> found then url_failures rest name w'
               else (case backend_url name w' of
                       (Inr u, w'') \<Rightarrow> []
                     | (Inl e, w'') \<Rightarrow> (backend_class, e) # url_failures rest name w''))
      | _ \<Rightarrow> url_failures rest name w)"

text \<open>
  The failures that the scan of \<open>open\<close> in migration mode meets, in order: what the
  backend's \<open>open\<close> raised, what \<open>read()\<close> raised, or the \<open>TypeError\<close> of
  \<open>BytesIO\<close>. The list ends where the scan returns.
\<close>

fun open_failures ::
  "storage \<Rightarrow> nat \<Rightarrow> (pykey \<times> (string \<times> string option, pyfile option, 'w) pymethod) list \<Rightarrow>
   string \<Rightarrow> string \<Rightarrow> 'w \<Rightarrow> (pykey \<times> exn) list" where
  "open_failures self i [] name mode w = []"
| "open_failures self i ((backend_class, backend_method) # rest) name mode w =
     (case backend_method (name, Some mode) w of
        (Inl e, w1) \<Rightarrow> (backend_class, e) # open_failures self (i + 1) rest name mode w1
      | (Inr result1, w1) \<Rightarrow>
          if \<not> py_bool result1 then open_failures self (i + 1) rest name mode w1
          else if in_data_migration self \<and> i > 0 \<and> mode \<in> set [''rb'', ''br''] then
            (case file_read (the result1) of
               Inl e \<Rightarrow> (backend_class, e) # open_failures self (i + 1) rest name mode w1
             | Inr content \<Rightarrow>
                 (case new_BytesIO content of
                    Inl e \<Rightarrow> (backend_class, e) # open_failures self (i + 1) rest name mode w1
                  | Inr file_obj \<Rightarrow> []))
          else [])"

text \<open>
  A dictionary is keyed by identifier with respect to a list of failures when it has one
  entry for each identifier that failed, holding the last failure of that identifier.
  \<open>raised_on_count n\<close> is what the tail of a dispatch raises when it decides on the
  number \<open>n\<close>: \<open>exceptions[0]\<close> for one, the aggregate otherwise.
\<close>

definition keyed_by_identifier :: "exceptions \<Rightarrow> (pykey \<times> exn) list \<Rightarrow> bool" where
  "keyed_by_identifier exceptions failures \<longleftrightarrow>
     distinct (map fst exceptions) \<and>
     fst ` set exceptions = fst ` set failures \<and>
     length exceptions = card (fst ` set failures) \<and>
     map_of exceptions = map_of (rev failures)"

definition raised_on_count :: "nat \<Rightarrow> exceptions \<Rightarrow> exn" where
  "raised_on_count n exceptions =
     (if n = 1
      then (case dict_getitem exceptions (KInt 0) of Inl err \<Rightarrow> err | Inr e \<Rightarrow> e)
      else Exn PlainException (concatenate_exceptions exceptions))"

section \<open>Example backends\<close>

text \<open>
  A small world for concrete runs: two stores that keep files by name, a store whose
  every call fails (and counts the attempts), a store that refuses to be written, a
  store that can be written but has no \<open>open\<close>, a store whose handles read as text,
  a store that says every file exists but cannot build a URL, and stores that have
  nothing but a \<open>url\<close> method that raises.
\<close>

record world =
  primary_files :: "(string \<times> string) list"
  secondary_files :: "(string \<times> string) list"
  attempts :: nat

definition bare_backend :: "'w backend" where
  "bare_backend =
     \<lparr>b__open = None, b__save = None, b_delete = None, b_size = None,
      b_accessed_time = None, b_created_time = None, b_modified_time = None,
      b_get_valid_name = None, b_get_available_name = None, b_path = None,
      b_exists = None, b_listdir = None, b_url = None, b_open = None, b_save = None\<rparr>"

fun data_text :: "pydata \<Rightarrow> string" where
  "data_text (Bytes c) = c"
| "data_text (Text c) = c"

definition not_found :: exn where
  "not_found = Exn (BackendError ''IOError'') ''File not found''"

definition primary_store :: "world backend" where
  "primary_store = bare_backend
     \<lparr>b_open := Some (\<lambda>(name, mode) w.
          case map_of (primary_files w) name of
            None \<Rightarrow> (Inl not_found, w)
          | Some c \<Rightarrow> (Inr (Some (File name (Inr (Bytes c)))), w)),
      b_save := Some (\<lambda>(name, f) w.
          case file_read f of
            Inl e \<Rightarrow> (Inl e, w)
          | Inr c \<Rightarrow> (Inr name, w\<lparr>primary_files := (name, data_text c) # primary_files w\<rparr>)),
      b_exists := Some (\<lambda>name w. (Inr (map_of (primary_files w) name \<noteq> None), w)),
      b_size := Some (\<lambda>name w.
          case map_of (primary_files w) name of
            None \<Rightarrow> (Inl not_found, w)
          | Some c \<Rightarrow> (Inr (int (length c)), w)),
      b_url := Some (\<lambda>name w. (Inr (''http://www.example.com/media/'' @ name), w))\<rparr>"

definition secondary_store :: "world backend" where
  "secondary_store = bare_backend
     \<lparr>b_open := Some (\<lambda>(name, mode) w.
          case map_of (secondary_files w) name of
            None \<Rightarrow> (Inl not_found, w)
          | Some c \<Rightarrow> (Inr (Some (File name (Inr (Bytes c)))), w)),
      b_save := Some (\<lambda>(name, f) w.
          case file_read f of
            Inl e \<Rightarrow> (Inl e, w)
          | Inr c \<Rightarrow> (Inr name, w\<lparr>secondary_files := (name, data_text c) # secondary_files w\<rparr>)),
      b_exists := Some (\<lambda>name w. (Inr (map_of (secondary_files w) name \<noteq> None), w)),
      b_size := Some (\<lambda>name w.
          case map_of (secondary_files w) name of
            None \<Rightarrow> (Inl not_found, w)
          | Some c \<Rightarrow> (Inr (int (length c)), w)),
      b_url := Some (\<lambda>name w. (Inr (''/media/'' @ name), w))\<rparr>"

definition unreachable :: "world \<Rightarrow> exn" where
  "unreachable w = Exn (BackendError ''IOError'') (''unreachable, attempt '' @ str_nat (attempts w))"

definition broken_store :: "world backend" where
  "broken_store = bare_backend
     \<lparr>b_size := Some (\<lambda>name w. (Inl (unreachable w), w\<lparr>attempts := attempts w + 1\<rparr>)),
      b_exists := Some (\<lambda>name w. (Inl (unreachable w), w\<lparr>attempts := attempts w + 1\<rparr>)),
      b_url := Some (\<lambda>name w. (Inl (unreachable w), w\<lparr>attempts := attempts w + 1\<rparr>)),
      b_listdir := Some (\<lambda>name w. (Inl (unreachable w), w\<lparr>attempts := attempts w + 1\<rparr>))\<rparr>"

definition write_protected_store :: "world backend" where
  "write_protected_store = primary_store
     \<lparr>b_save := Some (\<lambda>(name, f) w.
          (Inl (Exn (BackendError ''PermissionError'') ''read-only storage''), w))\<rparr>"

definition write_only_store :: "world backend" where
  "write_only_store = primary_store\<lparr>b_open := None\<rparr>"

definition text_store :: "world backend" where
  "text_store = secondary_store
     \<lparr>b_open := Some (\<lambda>(name, mode) w.
          case map_of (secondary_files w) name of
            None \<Rightarrow> (Inl not_found, w)
          | Some c \<Rightarrow> (Inr (Some (File name (Inr (Text c)))), w))\<rparr>"

definition unlinkable_store :: "world backend" where
  "unlinkable_store = bare_backend
     \<lparr>b_exists := Some (\<lambda>name w. (Inr True, w)),
      b_url := Some (\<lambda>name w. (Inl (unreachable w), w\<lparr>attempts := attempts w + 1\<rparr>))\<rparr>"

definition faulty_url_store :: "exn_class \<Rightarrow> world backend" where
  "faulty_url_store cls = bare_backend
     \<lparr>b_url := Some (\<lambda>name w. (Inl (Exn cls ''cannot build url''), w))\<rparr>"

fun example_gsc :: "pykey \<Rightarrow> world backend" where
  "example_gsc (KStr s) =
     (if s = ''stores.Primary'' then primary_store
      else if s = ''stores.Secondary'' then secondary_store
      else if s = ''stores.Broken'' then broken_store
      else if s = ''stores.WriteProtected'' then write_protected_store
      else if s = ''stores.WriteOnly'' then write_only_store
      else if s = ''stores.Text'' then text_store
      else if s = ''stores.Unlinkable'' then unlinkable_store
      else if s = ''stores.UrlIOError'' then faulty_url_store (BackendError ''IOError'')
      else if s = ''stores.UrlAttributeError'' then faulty_url_store AttributeError
      else bare_backend)"
| "example_gsc (KInt i) = bare_backend"

definition example_world :: world where
  "example_world =
     \<lparr>primary_files = [(''bar.txt'', ''test-bar'')],
      secondary_files = [(''foo.txt'', ''test-foo'')],
      attempts = 0\<rparr>"

section \<open>Lemmas about the dictionary and the loops\<close>

lemmas example_defs =
  example_world_def primary_store_def secondary_store_def broken_store_def
  write_protected_store_def write_only_store_def text_store_def unlinkable_store_def
  faulty_url_store_def bare_backend_def not_found_def
  unreachable_def get_backend_methods_def get_backends_def

lemma map_of_dict_setitem: "map_of (dict_setitem d k v) = (map_of d)(k \<mapsto> v)"
  by (induction d) (auto simp: fun_eq_iff)

lemma keys_dict_setitem:
  "map fst (dict_setitem d k v) = (if k \<in> set (map fst d) then map fst d else map fst d @ [k])"
  by (induction d) (auto simp: rev_image_eqI)

lemma distinct_dict_setitem: "distinct (map fst d) \<Longrightarrow> distinct (map fst (dict_setitem d k v))"
  by (simp add: keys_dict_setitem)

lemma dict_setitem_nonempty: "dict_setitem d k v \<noteq> []"
  by (induction d k v rule: dict_setitem.induct) auto

lemma backend_methods_append:
  "backend_methods attr (xs @ ys) = backend_methods attr xs @ backend_methods attr ys"
  by (induction xs) (auto split: option.splits)

lemma fallback_loop_all_fail:
  "consult_all ms args w = (outs, w') \<Longrightarrow> \<forall>(k, r) \<in> set outs. isl r \<Longrightarrow>
   fallback_loop ms args d w = (Fallthrough (record_failures d outs), w')"
proof (induction ms arbitrary: d w outs w')
  case Nil
  then show ?case by simp
next
  case (Cons p ms)
  obtain c m where p: "p = (c, m)" by (cases p)
  obtain r w1 where m: "m args w = (r, w1)" by (cases "m args w")
  obtain rs w2 where rest: "consult_all ms args w1 = (rs, w2)" by (cases "consult_all ms args w1")
  from Cons.prems(1) p m rest have outs: "outs = (c, r) # rs" and w': "w' = w2" by auto
  from Cons.prems(2) outs obtain e where r: "r = Inl e" by (cases r) auto
  from Cons.prems(2) outs have "\<forall>(k, r) \<in> set rs. isl r" by auto
  from Cons.IH[OF rest this] show ?case using p m r outs w' by simp
qed

lemma fallback_loop_append:
  "fallback_loop xs args d w = (Fallthrough d1, w1) \<Longrightarrow>
   fallback_loop (xs @ ys) args d w = fallback_loop ys args d1 w1"
proof (induction xs arbitrary: d w)
  case Nil
  then show ?case by simp
next
  case (Cons p xs)
  then show ?case by (cases p) (auto split: prod.splits sum.splits)
qed

lemma get_backends_split:
  "backend_classes self = pre @ c # post \<Longrightarrow>
   get_backends gsc self =
     get_backends gsc (self\<lparr>backend_classes := pre\<rparr>) @ (c, gsc c) #
     get_backends gsc (self\<lparr>backend_classes := post\<rparr>)"
  by (simp add: get_backends_def)

lemma get_backend_methods_split:
  "backend_classes self = pre @ c # post \<Longrightarrow> attr (gsc c) = Some m \<Longrightarrow>
   get_backend_methods gsc self attr =
     get_backend_methods gsc (self\<lparr>backend_classes := pre\<rparr>) attr @ (c, m) #
     get_backend_methods gsc (self\<lparr>backend_classes := post\<rparr>) attr"
  by (simp add: get_backend_methods_def get_backends_split backend_methods_append)

lemma exists_loop_no_true:
  "consult_all ms args w = (outs, w') \<Longrightarrow> \<forall>(k, r) \<in> set outs. r \<noteq> Inr True \<Longrightarrow>
   exists_loop ms args d w = (Fallthrough (record_failures d outs), w')"
proof (induction ms arbitrary: d w outs w')
  case Nil
  then show ?case by simp
next
  case (Cons p ms)
  obtain c m where p: "p = (c, m)" by (cases p)
  obtain r w1 where m: "m args w = (r, w1)" by (cases "m args w")
  obtain rs w2 where rest: "consult_all ms args w1 = (rs, w2)" by (cases "consult_all ms args w1")
  from Cons.prems(1) p m rest have outs: "outs = (c, r) # rs" and w': "w' = w2" by auto
  from Cons.prems(2) outs have r: "r \<noteq> Inr True" and rs: "\<forall>(k, r) \<in> set rs. r \<noteq> Inr True"
    by auto
  from Cons.IH[OF rest rs] show ?case using p m r outs w' by (cases r) auto
qed

lemma exists_loop_append:
  "exists_loop xs args d w = (Fallthrough d1, w1) \<Longrightarrow>
   exists_loop (xs @ ys) args d w = exists_loop ys args d1 w1"
proof (induction xs arbitrary: d w)
  case Nil
  then show ?case by simp
next
  case (Cons p xs)
  then show ?case by (cases p) (auto split: prod.splits sum.splits if_splits)
qed

lemma exists_loop_Return: "exists_loop ms args d w = (Return v, w') \<Longrightarrow> v"
proof (induction ms arbitrary: d w)
  case Nil
  then show ?case by simp
next
  case (Cons p ms)
  then show ?case by (cases p) (auto split: prod.splits sum.splits if_splits)
qed

lemma exists_loop_not_Raise: "exists_loop ms args d w \<noteq> (Raise e, w')"
proof (induction ms arbitrary: d w)
  case Nil
  then show ?case by simp
next
  case (Cons p ms)
  then show ?case by (cases p) (auto split: prod.splits sum.splits if_splits)
qed

lemma exists_loop_clean:
  "exists_loop ms args d w = (Fallthrough [], w') \<Longrightarrow>
   d = [] \<and> (\<forall>(k, r) \<in> set (fst (consult_all ms args w)). r = Inr False)"
proof (induction ms arbitrary: d w)
  case Nil
  then show ?case by simp
next
  case (Cons p ms)
  obtain c m where p: "p = (c, m)" by (cases p)
  obtain r w1 where m: "m args w = (r, w1)" by (cases "m args w")
  show ?case
  proof (cases r)
    case (Inl e)
    with Cons.prems p m have "exists_loop ms args (dict_setitem d c e) w1 = (Fallthrough [], w')"
      by simp
    from Cons.IH[OF this] show ?thesis by (simp add: dict_setitem_nonempty)
  next
    case (Inr b)
    with Cons.prems p m have b: "\<not> b" and "exists_loop ms args d w1 = (Fallthrough [], w')"
      by (auto split: if_splits)
    from Cons.IH[OF this(2)] b show ?thesis using p m Inr by (auto split: prod.splits)
  qed
qed

lemma record_failures_no_failure:
  "\<forall>(k, r) \<in> set outs. \<not> isl r \<Longrightarrow> record_failures d outs = d"
  by (induction d outs rule: record_failures.induct) auto

lemma dom_dict_setitem: "fst ` set (dict_setitem d k v) = insert k (fst ` set d)"
proof -
  have "set (map fst (dict_setitem d k v)) = insert k (set (map fst d))"
    unfolding keys_dict_setitem by auto
  then show ?thesis by simp
qed

section \<open>Policy A: the first success wins\<close>

text \<open>
  Claim C7. For every operation built by \<open>fallback_method\<close>: when the backends
  consulted before some backend all raise (those lacking the operation are not
  consulted) and that backend's call succeeds, the dispatch returns that backend's
  result; the world it leaves is the one the successful call left, whatever backends
  follow in the list, so none of them is invoked; and none of the failures recorded
  before is raised.
\<close>

theorem fallback_method_first_success_wins:
  assumes "backend_classes self = pre @ backend_class # post"
    and "consult_all (get_backend_methods gsc (self\<lparr>backend_classes := pre\<rparr>) attr) args w = (outs, w')"
    and "\<forall>(k, r) \<in> set outs. isl r"
    and "attr (gsc backend_class) = Some backend_method"
    and "backend_method args w' = (Inr v, w'')"
  shows "fallback_method method_name attr gsc self args w = (Inr v, w'')"
proof -
  let ?pre = "get_backend_methods gsc (self\<lparr>backend_classes := pre\<rparr>) attr"
  let ?post = "get_backend_methods gsc (self\<lparr>backend_classes := post\<rparr>) attr"
  have ms: "get_backend_methods gsc self attr = ?pre @ (backend_class, backend_method) # ?post"
    using assms(1,4) by (rule get_backend_methods_split)
  have "fallback_loop ?pre args [] w = (Fallthrough (record_failures [] outs), w')"
    using assms(2,3) by (rule fallback_loop_all_fail)
  then have "fallback_loop (get_backend_methods gsc self attr) args [] w = (Return v, w'')"
    unfolding ms using assms(5) by (simp add: fallback_loop_append)
  then show ?thesis by (simp add: fallback_method_def)
qed

theorem fallback_method_first_success_wins_witness:
  "consult_all (get_backend_methods example_gsc
       (\<lparr>backend_classes = [KStr ''stores.Broken'', KStr ''stores.Primary'', KStr ''stores.Secondary''],
         in_data_migration = False\<rparr>\<lparr>backend_classes := [KStr ''stores.Broken'']\<rparr>) b_size)
     ''bar.txt'' example_world
   = ([(KStr ''stores.Broken'', Inl (unreachable example_world))], example_world\<lparr>attempts := 1\<rparr>)
   \<and> FallbackStorage_size example_gsc
       \<lparr>backend_classes = [KStr ''stores.Broken'', KStr ''stores.Primary'', KStr ''stores.Secondary''],
        in_data_migration = False\<rparr> ''bar.txt'' example_world
     = (Inr 8, example_world\<lparr>attempts := 1\<rparr>)"
proof -
  let ?self = "\<lparr>backend_classes = [KStr ''stores.Broken'', KStr ''stores.Primary'', KStr ''stores.Secondary''],
                in_data_migration = False\<rparr>"
  have a: "backend_classes ?self = [KStr ''stores.Broken''] @ KStr ''stores.Primary'' # [KStr ''stores.Secondary'']"
    by simp
  have b: "consult_all (get_backend_methods example_gsc (?self\<lparr>backend_classes := [KStr ''stores.Broken'']\<rparr>) b_size)
             ''bar.txt'' example_world
           = ([(KStr ''stores.Broken'', Inl (unreachable example_world))], example_world\<lparr>attempts := 1\<rparr>)"
    by (simp add: example_defs)
  have c: "\<forall>(k, r) \<in> set [(KStr ''stores.Broken'', (Inl (unreachable example_world) :: exn + int))]. isl r"
    by simp
  have d: "b_size (example_gsc (KStr ''stores.Primary'')) =
             Some (\<lambda>name w. case map_of (primary_files w) name of
                      None \<Rightarrow> (Inl not_found, w)
                    | Some c \<Rightarrow> (Inr (int (length c)), w))"
    by (simp add: example_defs)
  have e: "(\<lambda>name w. case map_of (primary_files w) name of
                      None \<Rightarrow> (Inl not_found, w)
                    | Some c \<Rightarrow> (Inr (int (length c)), w)) ''bar.txt'' (example_world\<lparr>attempts := 1\<rparr>)
           = (Inr 8, example_world\<lparr>attempts := 1\<rparr>)"
    by (simp add: example_defs)
  note f = fallback_method_first_success_wins
    [where self = ?self and pre = "[KStr ''stores.Broken'']" and backend_class = "KStr ''stores.Primary''"
       and post = "[KStr ''stores.Secondary'']" and gsc = example_gsc and attr = b_size
       and args = "''bar.txt''" and w = example_world and w' = "example_world\<lparr>attempts := 1\<rparr>"
       and outs = "[(KStr ''stores.Broken'', Inl (unreachable example_world))]"
       and v = 8 and w'' = "example_world\<lparr>attempts := 1\<rparr>" and method_name = "''size''",
     OF a b c d e]
  show ?thesis unfolding FallbackStorage_size_def by (intro conjI) (rule b, rule f)
qed


section \<open>What is raised when every backend fails\<close>

text \<open>
  Claim C1. When exactly one backend was consulted and it raised, the dispatch should
  raise that backend's own exception. Here a facade over the single backend
  \<open>stores.Broken\<close> is asked for a size: the backend raises its \<open>IOError\<close>, which is
  recorded under the key \<open>stores.Broken\<close>, and \<open>raise exceptions[0]\<close> then looks up
  the key \<open>0\<close>, so the caller gets \<open>KeyError(0)\<close> instead.
\<close>

theorem single_failure_raises_KeyError:
  "FallbackStorage_size example_gsc
     \<lparr>backend_classes = [KStr ''stores.Broken''], in_data_migration = False\<rparr>
     ''foo.txt'' example_world
   = (Inl (Exn KeyError ''0''), example_world\<lparr>attempts := 1\<rparr>)
   \<and> consult_all (get_backend_methods example_gsc
         \<lparr>backend_classes = [KStr ''stores.Broken''], in_data_migration = False\<rparr> b_size)
       ''foo.txt'' example_world
     = ([(KStr ''stores.Broken'', Inl (Exn (BackendError ''IOError'') ''unreachable, attempt 0''))],
        example_world\<lparr>attempts := 1\<rparr>)"
  by (simp add: FallbackStorage_size_def fallback_method_def raise_exceptions_def
        dict_getitem_def str_int_def digit_char_def example_defs)

text \<open>
  Claim C3. When two backends fail, each line of the aggregate message should read
  identifier, colon, error. \<open>concatenate_exceptions\<close> unpacks the items of the
  dictionary as \<open>e, b\<close> (key, value) and formats \<open>b\<close> first: each line reads error,
  colon, identifier. The lines are in consultation order.
\<close>

theorem aggregate_message_puts_error_first:
  "FallbackStorage_size example_gsc
     \<lparr>backend_classes = [KStr ''stores.Broken'', KStr ''stores.Primary''], in_data_migration = False\<rparr>
     ''foo.txt'' example_world
   = (Inl (Exn PlainException
        (''unreachable, attempt 0: stores.Broken'' @ [CHR 0x0A] @ ''File not found: stores.Primary'')),
      example_world\<lparr>attempts := 1\<rparr>)"
  by (simp add: FallbackStorage_size_def fallback_method_def raise_exceptions_def
        concatenate_exceptions_def newline_def digit_char_def example_defs)

section \<open>Construction\<close>

text \<open>
  Claim C4, as stated: construction fails when the supplied list is empty. It does not:
  a supplied list is never inspected.
\<close>

theorem init_accepts_empty_list:
  "FallbackStorage_init \<lparr>FALLBACK_STORAGES = None, FALLBACK_DATA_MIGRATION = None\<rparr> (Some [])
   = Inr \<lparr>backend_classes = [], in_data_migration = False\<rparr>"
  by (simp add: FallbackStorage_init_def)

text \<open>
  Claim C4, amended. Construction succeeds for every supplied backend list, the empty
  one included, and keeps the list as it is. When no list is supplied, construction
  fails with \<open>ImproperlyConfigured\<close> if the setting \<open>FALLBACK_STORAGES\<close> is missing or
  empty, and otherwise succeeds with the list of the setting.
\<close>

theorem init_checks_only_the_setting:
  "FallbackStorage_init stg (Some bs)
     = Inr \<lparr>backend_classes = bs, in_data_migration = (FALLBACK_DATA_MIGRATION stg = Some True)\<rparr>
   \<and> FallbackStorage_init stg None
     = (if FALLBACK_STORAGES stg = None \<or> FALLBACK_STORAGES stg = Some []
        then Inl (Exn ImproperlyConfigured
                    ''The setting `FALLBACK_STORAGES` is either missing or empty'')
        else Inr \<lparr>backend_classes = the (FALLBACK_STORAGES stg),
                  in_data_migration = (FALLBACK_DATA_MIGRATION stg = Some True)\<rparr>)"
  by (auto simp: FallbackStorage_init_def Let_def split: option.splits)

section \<open>Listing a directory\<close>

text \<open>
  Claim C5. When no backend supports \<open>listdir\<close>, the call should fail with the
  \<open>AttributeError\<close> "No backend found with the method `listdir`". Neither example store
  defines \<open>listdir\<close>: the loop body never runs, no failure is recorded, and the test
  \<open>not exceptions\<close> of the first branch returns the two empty lists. The branch that
  raises the error is never reached.
\<close>

theorem listdir_without_support_returns_empty:
  "FallbackStorage_listdir example_gsc
     \<lparr>backend_classes = [KStr ''stores.Primary'', KStr ''stores.Secondary''], in_data_migration = False\<rparr>
     '''' example_world
   = (Inr ([], []), example_world)
   \<and> get_backend_methods example_gsc
        \<lparr>backend_classes = [KStr ''stores.Primary'', KStr ''stores.Secondary''], in_data_migration = False\<rparr>
        b_listdir = []"
  by (simp add: FallbackStorage_listdir_def py_any_def example_defs)

section \<open>Policy B: \<open>exists\<close>\<close>

lemma exists_first_true:
  assumes "backend_classes self = pre @ backend_class # post"
    and "consult_all (get_backend_methods gsc (self\<lparr>backend_classes := pre\<rparr>) b_exists) name w = (outs, w')"
    and "\<forall>(k, r) \<in> set outs. r \<noteq> Inr True"
    and "b_exists (gsc backend_class) = Some backend_method"
    and "backend_method name w' = (Inr True, w'')"
  shows "FallbackStorage_exists gsc self name w = (Inr True, w'')"
proof -
  let ?pre = "get_backend_methods gsc (self\<lparr>backend_classes := pre\<rparr>) b_exists"
  let ?post = "get_backend_methods gsc (self\<lparr>backend_classes := post\<rparr>) b_exists"
  have ms: "get_backend_methods gsc self b_exists = ?pre @ (backend_class, backend_method) # ?post"
    using assms(1,4) by (rule get_backend_methods_split)
  have "exists_loop ?pre name [] w = (Fallthrough (record_failures [] outs), w')"
    using assms(2,3) by (rule exists_loop_no_true)
  then have "exists_loop (get_backend_methods gsc self b_exists) name [] w = (Return True, w'')"
    unfolding ms using assms(5) by (simp add: exists_loop_append)
  then show ?thesis
    by (simp add: FallbackStorage_exists_def)
qed

lemma exists_false_only_if:
  assumes f: "fst (FallbackStorage_exists gsc self name w) = Inr False"
  shows "\<forall>(k, r) \<in> set (fst (consult_all (get_backend_methods gsc self b_exists) name w)). r = Inr False"
proof -
  let ?ms = "get_backend_methods gsc self b_exists"
  obtain sc w1 where l: "exists_loop ?ms name [] w = (sc, w1)"
    by (cases "exists_loop ?ms name [] w")
  have "sc = Fallthrough []"
  proof (cases sc)
    case (Return v)
    with l have v by (auto dest: exists_loop_Return)
    with f l Return show ?thesis by (simp add: FallbackStorage_exists_def)
  next
    case (Raise e)
    with f l show ?thesis by (simp add: FallbackStorage_exists_def)
  next
    case (Fallthrough d)
    with f l show ?thesis by (simp add: FallbackStorage_exists_def split: if_splits)
  qed
  with l have "exists_loop ?ms name [] w = (Fallthrough [], w1)" by simp
  from exists_loop_clean[OF this] show ?thesis by simp
qed

lemma exists_false_if:
  assumes all: "\<forall>(k, r) \<in> set (fst (consult_all (get_backend_methods gsc self b_exists) name w)). r = Inr False"
  shows "fst (FallbackStorage_exists gsc self name w) = Inr False"
proof -
  let ?ms = "get_backend_methods gsc self b_exists"
  obtain outs w1 where c: "consult_all ?ms name w = (outs, w1)"
    by (cases "consult_all ?ms name w")
  from all c have nt: "\<forall>(k, r) \<in> set outs. r \<noteq> Inr True" and nf: "\<forall>(k, r) \<in> set outs. \<not> isl r"
    by auto
  have "exists_loop ?ms name [] w = (Fallthrough (record_failures [] outs), w1)"
    using c nt by (rule exists_loop_no_true)
  moreover have "record_failures [] outs = []"
    using nf by (rule record_failures_no_failure)
  ultimately show "fst (FallbackStorage_exists gsc self name w) = Inr False"
    by (simp add: FallbackStorage_exists_def)
qed


text \<open>
  Claim C8. \<open>exists(name)\<close> is true as soon as a backend supporting \<open>exists\<close>
  answers true, whatever the backends consulted before it did short of answering true
  (they answered false or raised), and the backends after it are not asked. The result
  is false exactly when every backend supporting \<open>exists\<close>, asked in turn, answers
  false (none raises); this includes the case that no backend supports \<open>exists\<close>.
\<close>

theorem exists_true_at_first_true_false_iff_all_false:
  "(backend_classes self = pre @ backend_class # post \<and>
    consult_all (get_backend_methods gsc (self\<lparr>backend_classes := pre\<rparr>) b_exists) name w = (outs, w') \<and>
    (\<forall>(k, r) \<in> set outs. r \<noteq> Inr True) \<and>
    b_exists (gsc backend_class) = Some backend_method \<and>
    backend_method name w' = (Inr True, w'')
    \<longrightarrow> FallbackStorage_exists gsc self name w = (Inr True, w''))
   \<and>
   (fst (FallbackStorage_exists gsc self name w) = Inr False \<longleftrightarrow>
    (\<forall>(k, r) \<in> set (fst (consult_all (get_backend_methods gsc self b_exists) name w)).
       r = Inr False))"
proof (rule conjI)
  show "backend_classes self = pre @ backend_class # post \<and>
    consult_all (get_backend_methods gsc (self\<lparr>backend_classes := pre\<rparr>) b_exists) name w = (outs, w') \<and>
    (\<forall>(k, r) \<in> set outs. r \<noteq> Inr True) \<and>
    b_exists (gsc backend_class) = Some backend_method \<and>
    backend_method name w' = (Inr True, w'')
    \<longrightarrow> FallbackStorage_exists gsc self name w = (Inr True, w'')"
    by (rule impI, elim conjE, rule exists_first_true; assumption)
next
  show "fst (FallbackStorage_exists gsc self name w) = Inr False \<longleftrightarrow>
    (\<forall>(k, r) \<in> set (fst (consult_all (get_backend_methods gsc self b_exists) name w)).
       r = Inr False)"
    by (rule iffI, erule exists_false_only_if, erule exists_false_if)
qed

theorem exists_true_at_first_true_false_iff_all_false_witness:
  "FallbackStorage_exists example_gsc
     \<lparr>backend_classes = [KStr ''stores.Broken'', KStr ''stores.Primary'', KStr ''stores.Secondary''],
      in_data_migration = False\<rparr> ''bar.txt'' example_world
   = (Inr True, example_world\<lparr>attempts := 1\<rparr>)
   \<and> fst (FallbackStorage_exists example_gsc
     \<lparr>backend_classes = [KStr ''stores.Primary'', KStr ''stores.Secondary''],
      in_data_migration = False\<rparr> ''zap.txt'' example_world) = Inr False"
proof -
  let ?self = "\<lparr>backend_classes = [KStr ''stores.Broken'', KStr ''stores.Primary'', KStr ''stores.Secondary''],
                in_data_migration = False\<rparr>"
  let ?self2 = "\<lparr>backend_classes = [KStr ''stores.Primary'', KStr ''stores.Secondary''],
                in_data_migration = False\<rparr>"
  let ?m = "\<lambda>name w. (Inr (map_of (primary_files w) name \<noteq> None) :: exn + bool, w :: world)"
  have a: "backend_classes ?self = [KStr ''stores.Broken''] @ KStr ''stores.Primary'' # [KStr ''stores.Secondary'']"
    by simp
  have b: "consult_all (get_backend_methods example_gsc (?self\<lparr>backend_classes := [KStr ''stores.Broken'']\<rparr>) b_exists)
             ''bar.txt'' example_world
           = ([(KStr ''stores.Broken'', Inl (unreachable example_world))], example_world\<lparr>attempts := 1\<rparr>)"
    by (simp add: example_defs)
  have c: "\<forall>(k, r) \<in> set [(KStr ''stores.Broken'', (Inl (unreachable example_world) :: exn + bool))]. r \<noteq> Inr True"
    by simp
  have d: "b_exists (example_gsc (KStr ''stores.Primary'')) = Some ?m"
    by (simp add: example_defs)
  have e: "?m ''bar.txt'' (example_world\<lparr>attempts := 1\<rparr>) = (Inr True, example_world\<lparr>attempts := 1\<rparr>)"
    by (simp add: example_defs)
  have f: "\<forall>(k, r) \<in> set (fst (consult_all (get_backend_methods example_gsc ?self2 b_exists)
             ''zap.txt'' example_world)). r = Inr False"
    by (simp add: example_defs)
  note t = exists_true_at_first_true_false_iff_all_false
  note t1 = t [where self = ?self and pre = "[KStr ''stores.Broken'']"
       and backend_class = "KStr ''stores.Primary''" and post = "[KStr ''stores.Secondary'']"
       and gsc = example_gsc and name = "''bar.txt''" and w = example_world
       and w' = "example_world\<lparr>attempts := 1\<rparr>"
       and outs = "[(KStr ''stores.Broken'', Inl (unreachable example_world))]"
       and w'' = "example_world\<lparr>attempts := 1\<rparr>" and backend_method = ?m, THEN conjunct1, rule_format]
  note t2 = t [where self = ?self2 and gsc = example_gsc and name = "''zap.txt''" and w = example_world,
       THEN conjunct2, THEN iffD2]
  show ?thesis
    by (intro conjI) (rule t1, intro conjI, rule a, rule b, rule c, rule d, rule e, rule t2, rule f)
qed

section \<open>Failures are keyed by backend identifier\<close>

lemma record_failures_record_all: "record_failures d outs = record_all d (failures_of outs)"
  by (induction d outs rule: record_failures.induct) auto

lemma map_of_record_all: "map_of (record_all d fs) = map_of d ++ map_of (rev fs)"
proof (induction fs arbitrary: d)
  case Nil
  then show ?case by simp
next
  case (Cons p fs)
  then show ?case
    by (cases p) (simp add: map_of_dict_setitem fun_eq_iff map_add_def split: option.splits)
qed

lemma dom_record_all: "fst ` set (record_all d fs) = fst ` set d \<union> fst ` set fs"
proof (induction fs arbitrary: d)
  case Nil
  then show ?case by simp
next
  case (Cons p fs)
  then show ?case by (cases p) (simp add: dom_dict_setitem)
qed

lemma distinct_record_all: "distinct (map fst d) \<Longrightarrow> distinct (map fst (record_all d fs))"
proof (induction fs arbitrary: d)
  case Nil
  then show ?case by simp
next
  case (Cons p fs)
  then show ?case by (cases p) (simp add: distinct_dict_setitem)
qed

lemma keyed_record_all: "keyed_by_identifier (record_all [] fs) fs"
proof -
  let ?d = "record_all [] fs"
  have dist: "distinct (map fst ?d)" by (simp add: distinct_record_all)
  have keys: "fst ` set ?d = fst ` set fs" by (simp add: dom_record_all)
  have "card (set (map fst ?d)) = length (map fst ?d)" using dist by (rule distinct_card)
  with keys have len: "length ?d = card (fst ` set fs)" by simp
  have mo: "map_of ?d = map_of (rev fs)" by (simp add: map_of_record_all)
  from dist keys len mo show ?thesis unfolding keyed_by_identifier_def by blast
qed

lemma raise_exceptions_on_count:
  "keyed_by_identifier exceptions fs \<Longrightarrow>
   raise_exceptions exceptions = raised_on_count (card (fst ` set fs)) exceptions"
  by (simp add: keyed_by_identifier_def raise_exceptions_def raised_on_count_def)

lemma fallback_loop_records:
  "fallback_loop ms args d w = (Fallthrough d', w') \<Longrightarrow>
   d' = record_all d (failures_of (fst (consult_all ms args w)))"
proof (induction ms arbitrary: d w)
  case Nil
  then show ?case by simp
next
  case (Cons p ms)
  obtain c m where p: "p = (c, m)" by (cases p)
  obtain r w1 where m: "m args w = (r, w1)" by (cases "m args w")
  show ?case
  proof (cases r)
    case (Inl e)
    with Cons.prems p m have "fallback_loop ms args (dict_setitem d c e) w1 = (Fallthrough d', w')"
      by simp
    from Cons.IH[OF this] show ?thesis using p m Inl by (simp split: prod.splits)
  next
    case (Inr v)
    with Cons.prems p m show ?thesis by simp
  qed
qed

lemma exists_loop_records:
  "exists_loop ms args d w = (Fallthrough d', w') \<Longrightarrow>
   d' = record_all d (failures_of (fst (consult_all ms args w)))"
proof (induction ms arbitrary: d w)
  case Nil
  then show ?case by simp
next
  case (Cons p ms)
  obtain c m where p: "p = (c, m)" by (cases p)
  obtain r w1 where m: "m args w = (r, w1)" by (cases "m args w")
  show ?case
  proof (cases r)
    case (Inl e)
    with Cons.prems p m have "exists_loop ms args (dict_setitem d c e) w1 = (Fallthrough d', w')"
      by simp
    from Cons.IH[OF this] show ?thesis using p m Inl by (simp split: prod.splits)
  next
    case (Inr v)
    with Cons.prems p m have "exists_loop ms args d w1 = (Fallthrough d', w')"
      by (simp split: if_splits)
    from Cons.IH[OF this] show ?thesis using p m Inr by (simp split: prod.splits)
  qed
qed

lemma listdir_loop_records:
  "listdir_loop ms args ds fs d w = ((ds', fs', d'), w') \<Longrightarrow>
   d' = record_all d (failures_of (fst (consult_all ms args w)))"
proof (induction ms arbitrary: ds fs d w)
  case Nil
  then show ?case by simp
next
  case (Cons p ms)
  obtain c m where p: "p = (c, m)" by (cases p)
  obtain r w1 where m: "m args w = (r, w1)" by (cases "m args w")
  show ?case
  proof (cases r)
    case (Inl e)
    with Cons.prems p m
    have "listdir_loop ms args ds fs (dict_setitem d c e) w1 = ((ds', fs', d'), w')"
      by simp
    from Cons.IH[OF this] show ?thesis using p m Inl by (simp split: prod.splits)
  next
    case (Inr v)
    obtain dirs files where v: "v = (dirs, files)" by (cases v)
    with Cons.prems p m Inr
    have "listdir_loop ms args (ds @ dirs) (fs @ files) d w1 = ((ds', fs', d'), w')"
      by simp
    from Cons.IH[OF this] show ?thesis using p m Inr by (simp split: prod.splits)
  qed
qed

lemma url_loop_records:
  "url_loop bs name d w = (Fallthrough d', w') \<Longrightarrow> d' = record_all d (url_failures bs name w)"
proof (induction bs arbitrary: d w)
  case Nil
  then show ?case by simp
next
  case (Cons p bs)
  obtain c b where p: "p = (c, b)" by (cases p)
  show ?case
  proof (cases "b_url b")
    case None
    with Cons p show ?thesis by simp
  next
    case u: (Some backend_url)
    show ?thesis
    proof (cases "b_exists b")
      case None
      with Cons p u show ?thesis by simp
    next
      case ex: (Some backend_exists)
      obtain r w1 where r: "backend_exists name w = (r, w1)" by (cases "backend_exists name w")
      show ?thesis
      proof (cases r)
        case (Inl e)
        with Cons.prems p u ex r show ?thesis by simp
      next
        case (Inr found)
        show ?thesis
        proof (cases found)
          case False
          with Cons p u ex r Inr show ?thesis by simp
        next
          case True
          obtain r2 w2 where r2: "backend_url name w1 = (r2, w2)" by (cases "backend_url name w1")
          with Cons p u ex r Inr True show ?thesis by (cases r2) simp_all
        qed
      qed
    qed
  qed
qed

lemma open_loop_records:
  "open_loop gsc self i ms name mode result d w log = ((Fallthrough d', result'), w', log') \<Longrightarrow>
   d' = record_all d (open_failures self i ms name mode w)"
proof (induction ms arbitrary: i result d w)
  case Nil
  then show ?case by simp
next
  case (Cons p ms)
  obtain c m where p: "p = (c, m)" by (cases p)
  obtain r w1 where m: "m (name, Some mode) w = (r, w1)" by (cases "m (name, Some mode) w")
  show ?case
  proof (cases r)
    case (Inl e)
    with Cons.prems p m
    have "open_loop gsc self (i + 1) ms name mode result (dict_setitem d c e) w1 log =
            ((Fallthrough d', result'), w', log')"
      by simp
    from Cons.IH[OF this] show ?thesis using p m Inl by simp
  next
    case (Inr result1)
    show ?thesis
    proof (cases "py_bool result1")
      case False
      with Cons.prems p m Inr
      have "open_loop gsc self (i + 1) ms name mode result1 d w1 log =
              ((Fallthrough d', result'), w', log')"
        by simp
      from Cons.IH[OF this] show ?thesis using p m Inr False by simp
    next
      case True
      show ?thesis
      proof (cases "in_data_migration self \<and> i > 0 \<and> mode \<in> set [''rb'', ''br'']")
        case False
        with Cons.prems p m Inr True show ?thesis
          by (auto split: prod.splits sum.splits if_splits)
      next
        case mig: True
        show ?thesis
        proof (cases "file_read (the result1)")
          case (Inl e)
          with Cons.prems p m Inr True mig
          have "open_loop gsc self (i + 1) ms name mode result1 (dict_setitem d c e) w1 log =
                  ((Fallthrough d', result'), w', log')"
            by simp
          from Cons.IH[OF this] show ?thesis using p m Inr True mig Inl by simp
        next
          case rd: (Inr content)
          show ?thesis
          proof (cases "new_BytesIO content")
            case (Inl e)
            with Cons.prems p m Inr True mig rd
            have "open_loop gsc self (i + 1) ms name mode (Some (ContentFile content name))
                    (dict_setitem d c e) w1 log = ((Fallthrough d', result'), w', log')"
              by simp
            from Cons.IH[OF this] show ?thesis using p m Inr True mig rd Inl by simp
          next
            case (Inr file_obj)
            with Cons.prems p m \<open>r = Inr result1\<close> True mig rd show ?thesis
              by (auto split: prod.splits)
          qed
        qed
      qed
    qed
  qed
qed

text \<open>
  Claim C9. In every dispatch (\<open>fallback_method\<close>, \<open>exists\<close>, \<open>listdir\<close>, \<open>url\<close> outside
  migration mode, \<open>open\<close> in migration mode; \<open>url\<close> in migration mode and \<open>open\<close>
  outside it are \<open>fallback_method\<close>), when the scan ends with a non-empty dictionary and
  the tail of the dispatch decides what to raise: the dictionary has one entry for each
  distinct identifier that failed during the scan, holding the last failure of that
  identifier, and the choice between \<open>exceptions[0]\<close> and the aggregate is made on the
  number of distinct failing identifiers, however many backends were consulted.
\<close>

theorem failures_keyed_by_identifier:
  fixes attr :: "'w backend \<Rightarrow> ('a, 'r, 'w) pymethod option"
  shows
  "(fallback_loop (get_backend_methods gsc self attr) args [] w = (Fallthrough exceptions, w') \<and>
    exceptions \<noteq> [] \<longrightarrow>
      keyed_by_identifier exceptions
        (failures_of (fst (consult_all (get_backend_methods gsc self attr) args w))) \<and>
      fallback_method method_name attr gsc self args w =
        (Inl (raised_on_count
               (card (fst ` set (failures_of (fst (consult_all (get_backend_methods gsc self attr) args w)))))
               exceptions), w'))
   \<and>
   (exists_loop (get_backend_methods gsc self b_exists) name [] w = (Fallthrough exceptions, w') \<and>
    exceptions \<noteq> [] \<longrightarrow>
      keyed_by_identifier exceptions
        (failures_of (fst (consult_all (get_backend_methods gsc self b_exists) name w))) \<and>
      FallbackStorage_exists gsc self name w =
        (Inl (raised_on_count
               (card (fst ` set (failures_of (fst (consult_all (get_backend_methods gsc self b_exists) name w)))))
               exceptions), w'))
   \<and>
   (listdir_loop (get_backend_methods gsc self b_listdir) name [] [] [] w =
      ((directories, files, exceptions), w') \<and>
    exceptions \<noteq> [] \<and> \<not> py_any directories \<and> \<not> py_any files \<longrightarrow>
      keyed_by_identifier exceptions
        (failures_of (fst (consult_all (get_backend_methods gsc self b_listdir) name w))) \<and>
      FallbackStorage_listdir gsc self name w =
        (Inl (raised_on_count
               (card (fst ` set (failures_of (fst (consult_all (get_backend_methods gsc self b_listdir) name w)))))
               exceptions), w'))
   \<and>
   (\<not> in_data_migration self \<and>
    url_loop (get_backends gsc self) name [] w = (Fallthrough exceptions, w') \<and>
    exceptions \<noteq> [] \<longrightarrow>
      keyed_by_identifier exceptions (url_failures (get_backends gsc self) name w) \<and>
      FallbackStorage_url gsc self name w =
        (Inl (raised_on_count
               (card (fst ` set (url_failures (get_backends gsc self) name w))) exceptions), w'))
   \<and>
   (in_data_migration self \<and>
    open_loop gsc self 0 (get_backend_methods gsc self b_open) name mode None [] w log =
      ((Fallthrough exceptions, result), w', log') \<and>
    exceptions \<noteq> [] \<longrightarrow>
      keyed_by_identifier exceptions
        (open_failures self 0 (get_backend_methods gsc self b_open) name mode w) \<and>
      FallbackStorage_open gsc self name mode w log =
        (Inl (raised_on_count
               (card (fst ` set (open_failures self 0 (get_backend_methods gsc self b_open) name mode w)))
               exceptions), w', log'))"
proof (intro conjI)
  let ?ms = "get_backend_methods gsc self attr"
  let ?fs = "failures_of (fst (consult_all ?ms args w))"
  show "fallback_loop ?ms args [] w = (Fallthrough exceptions, w') \<and> exceptions \<noteq> [] \<longrightarrow>
      keyed_by_identifier exceptions ?fs \<and>
      fallback_method method_name attr gsc self args w =
        (Inl (raised_on_count (card (fst ` set ?fs)) exceptions), w')"
  proof (rule impI, elim conjE)
    assume l: "fallback_loop ?ms args [] w = (Fallthrough exceptions, w')" and ne: "exceptions \<noteq> []"
    from fallback_loop_records[OF l] have k: "keyed_by_identifier exceptions ?fs"
      by (simp add: keyed_record_all)
    from l ne raise_exceptions_on_count[OF k]
    have "fallback_method method_name attr gsc self args w =
            (Inl (raised_on_count (card (fst ` set ?fs)) exceptions), w')"
      by (simp add: fallback_method_def)
    with k show "keyed_by_identifier exceptions ?fs \<and>
      fallback_method method_name attr gsc self args w =
        (Inl (raised_on_count (card (fst ` set ?fs)) exceptions), w')" by (rule conjI)
  qed
next
  let ?ms = "get_backend_methods gsc self b_exists"
  let ?fs = "failures_of (fst (consult_all ?ms name w))"
  show "exists_loop ?ms name [] w = (Fallthrough exceptions, w') \<and> exceptions \<noteq> [] \<longrightarrow>
      keyed_by_identifier exceptions ?fs \<and>
      FallbackStorage_exists gsc self name w =
        (Inl (raised_on_count (card (fst ` set ?fs)) exceptions), w')"
  proof (rule impI, elim conjE)
    assume l: "exists_loop ?ms name [] w = (Fallthrough exceptions, w')" and ne: "exceptions \<noteq> []"
    from exists_loop_records[OF l] have k: "keyed_by_identifier exceptions ?fs"
      by (simp add: keyed_record_all)
    from l ne raise_exceptions_on_count[OF k]
    have "FallbackStorage_exists gsc self name w =
            (Inl (raised_on_count (card (fst ` set ?fs)) exceptions), w')"
      by (simp add: FallbackStorage_exists_def)
    with k show "keyed_by_identifier exceptions ?fs \<and>
      FallbackStorage_exists gsc self name w =
        (Inl (raised_on_count (card (fst ` set ?fs)) exceptions), w')" by (rule conjI)
  qed
next
  let ?ms = "get_backend_methods gsc self b_listdir"
  let ?fs = "failures_of (fst (consult_all ?ms name w))"
  show "listdir_loop ?ms name [] [] [] w = ((directories, files, exceptions), w') \<and>
    exceptions \<noteq> [] \<and> \<not> py_any directories \<and> \<not> py_any files \<longrightarrow>
      keyed_by_identifier exceptions ?fs \<and>
      FallbackStorage_listdir gsc self name w =
        (Inl (raised_on_count (card (fst ` set ?fs)) exceptions), w')"
  proof (rule impI, elim conjE)
    assume l: "listdir_loop ?ms name [] [] [] w = ((directories, files, exceptions), w')"
      and ne: "exceptions \<noteq> []" and nd: "\<not> py_any directories" and nf: "\<not> py_any files"
    from listdir_loop_records[OF l] have k: "keyed_by_identifier exceptions ?fs"
      by (simp add: keyed_record_all)
    from l ne nd nf raise_exceptions_on_count[OF k]
    have "FallbackStorage_listdir gsc self name w =
            (Inl (raised_on_count (card (fst ` set ?fs)) exceptions), w')"
      by (simp add: FallbackStorage_listdir_def)
    with k show "keyed_by_identifier exceptions ?fs \<and>
      FallbackStorage_listdir gsc self name w =
        (Inl (raised_on_count (card (fst ` set ?fs)) exceptions), w')" by (rule conjI)
  qed
next
  let ?fs = "url_failures (get_backends gsc self) name w"
  show "\<not> in_data_migration self \<and>
    url_loop (get_backends gsc self) name [] w = (Fallthrough exceptions, w') \<and>
    exceptions \<noteq> [] \<longrightarrow>
      keyed_by_identifier exceptions ?fs \<and>
      FallbackStorage_url gsc self name w =
        (Inl (raised_on_count (card (fst ` set ?fs)) exceptions), w')"
  proof (rule impI, elim conjE)
    assume nm: "\<not> in_data_migration self"
      and l: "url_loop (get_backends gsc self) name [] w = (Fallthrough exceptions, w')"
      and ne: "exceptions \<noteq> []"
    from url_loop_records[OF l] have k: "keyed_by_identifier exceptions ?fs"
      by (simp add: keyed_record_all)
    from nm l ne raise_exceptions_on_count[OF k]
    have "FallbackStorage_url gsc self name w =
            (Inl (raised_on_count (card (fst ` set ?fs)) exceptions), w')"
      by (simp add: FallbackStorage_url_def)
    with k show "keyed_by_identifier exceptions ?fs \<and>
      FallbackStorage_url gsc self name w =
        (Inl (raised_on_count (card (fst ` set ?fs)) exceptions), w')" by (rule conjI)
  qed
next
  let ?ms = "get_backend_methods gsc self b_open"
  let ?fs = "open_failures self 0 ?ms name mode w"
  show "in_data_migration self \<and>
    open_loop gsc self 0 ?ms name mode None [] w log = ((Fallthrough exceptions, result), w', log') \<and>
    exceptions \<noteq> [] \<longrightarrow>
      keyed_by_identifier exceptions ?fs \<and>
      FallbackStorage_open gsc self name mode w log =
        (Inl (raised_on_count (card (fst ` set ?fs)) exceptions), w', log')"
  proof (rule impI, elim conjE)
    assume mg: "in_data_migration self"
      and l: "open_loop gsc self 0 ?ms name mode None [] w log = ((Fallthrough exceptions, result), w', log')"
      and ne: "exceptions \<noteq> []"
    from open_loop_records[OF l] have k: "keyed_by_identifier exceptions ?fs"
      by (simp add: keyed_record_all)
    from mg l ne raise_exceptions_on_count[OF k]
    have "FallbackStorage_open gsc self name mode w log =
            (Inl (raised_on_count (card (fst ` set ?fs)) exceptions), w', log')"
      by (simp add: FallbackStorage_open_def)
    with k show "keyed_by_identifier exceptions ?fs \<and>
      FallbackStorage_open gsc self name mode w log =
        (Inl (raised_on_count (card (fst ` set ?fs)) exceptions), w', log')" by (rule conjI)
  qed
qed

theorem failures_keyed_by_identifier_witness:
  "FallbackStorage_size example_gsc
     \<lparr>backend_classes = [KStr ''stores.Broken'', KStr ''stores.Broken''], in_data_migration = False\<rparr>
     ''foo.txt'' example_world
   = (Inl (raised_on_count 1
        [(KStr ''stores.Broken'', Exn (BackendError ''IOError'') ''unreachable, attempt 1'')]),
      example_world\<lparr>attempts := 2\<rparr>)
   \<and> FallbackStorage_exists example_gsc
     \<lparr>backend_classes = [KStr ''stores.Primary'', KStr ''stores.Broken'', KStr ''stores.Secondary''],
      in_data_migration = False\<rparr>
     ''zap.txt'' example_world
   = (Inl (raised_on_count 1
        [(KStr ''stores.Broken'', Exn (BackendError ''IOError'') ''unreachable, attempt 0'')]),
      example_world\<lparr>attempts := 1\<rparr>)
   \<and> FallbackStorage_listdir example_gsc
     \<lparr>backend_classes = [KStr ''stores.Broken'', KStr ''stores.Broken''], in_data_migration = False\<rparr>
     '''' example_world
   = (Inl (raised_on_count 1
        [(KStr ''stores.Broken'', Exn (BackendError ''IOError'') ''unreachable, attempt 1'')]),
      example_world\<lparr>attempts := 2\<rparr>)
   \<and> FallbackStorage_url example_gsc
     \<lparr>backend_classes = [KStr ''stores.Unlinkable'', KStr ''stores.Primary'', KStr ''stores.Unlinkable''],
      in_data_migration = False\<rparr>
     ''zap.txt'' example_world
   = (Inl (raised_on_count 1
        [(KStr ''stores.Unlinkable'', Exn (BackendError ''IOError'') ''unreachable, attempt 1'')]),
      example_world\<lparr>attempts := 2\<rparr>)
   \<and> FallbackStorage_open example_gsc
     \<lparr>backend_classes = [KStr ''stores.Primary'', KStr ''stores.Primary''], in_data_migration = True\<rparr>
     ''zap.txt'' ''rb'' example_world []
   = (Inl (raised_on_count 1 [(KStr ''stores.Primary'', not_found)]), example_world, [])"
proof -
  let ?e0 = "Exn (BackendError ''IOError'') ''unreachable, attempt 0''"
  let ?e1 = "Exn (BackendError ''IOError'') ''unreachable, attempt 1''"
  let ?w1 = "example_world\<lparr>attempts := 1\<rparr>"
  let ?w2 = "example_world\<lparr>attempts := 2\<rparr>"
  let ?sA = "\<lparr>backend_classes = [KStr ''stores.Broken'', KStr ''stores.Broken''], in_data_migration = False\<rparr>"
  let ?sB = "\<lparr>backend_classes = [KStr ''stores.Primary'', KStr ''stores.Broken'', KStr ''stores.Secondary''],
              in_data_migration = False\<rparr>"
  let ?sD = "\<lparr>backend_classes = [KStr ''stores.Unlinkable'', KStr ''stores.Primary'', KStr ''stores.Unlinkable''],
              in_data_migration = False\<rparr>"
  let ?sE = "\<lparr>backend_classes = [KStr ''stores.Primary'', KStr ''stores.Primary''], in_data_migration = True\<rparr>"
  note t = failures_keyed_by_identifier

  have hA: "fallback_loop (get_backend_methods example_gsc ?sA b_size) ''foo.txt'' [] example_world
              = (Fallthrough [(KStr ''stores.Broken'', ?e1)], ?w2)
            \<and> [(KStr ''stores.Broken'', ?e1)] \<noteq> []"
    by (simp add: example_defs digit_char_def)
  have cA: "card (fst ` set (failures_of (fst (consult_all
              (get_backend_methods example_gsc ?sA b_size) ''foo.txt'' example_world)))) = 1"
    by (simp add: example_defs)
  note tA = t [where gsc = example_gsc and self = ?sA and attr = b_size and args = "''foo.txt''"
      and w = example_world and w' = ?w2 and exceptions = "[(KStr ''stores.Broken'', ?e1)]"
      and method_name = "''size''", THEN conjunct1, rule_format, OF hA, THEN conjunct2]
  have rA: "FallbackStorage_size example_gsc ?sA ''foo.txt'' example_world
            = (Inl (raised_on_count 1 [(KStr ''stores.Broken'', ?e1)]), ?w2)"
    unfolding FallbackStorage_size_def using tA by (simp only: cA)

  have hB: "exists_loop (get_backend_methods example_gsc ?sB b_exists) ''zap.txt'' [] example_world
              = (Fallthrough [(KStr ''stores.Broken'', ?e0)], ?w1)
            \<and> [(KStr ''stores.Broken'', ?e0)] \<noteq> []"
    by (simp add: example_defs digit_char_def)
  have cB: "card (fst ` set (failures_of (fst (consult_all
              (get_backend_methods example_gsc ?sB b_exists) ''zap.txt'' example_world)))) = 1"
    by (simp add: example_defs)
  note tB = t [where gsc = example_gsc and self = ?sB and name = "''zap.txt''"
      and w = example_world and w' = ?w1 and exceptions = "[(KStr ''stores.Broken'', ?e0)]",
      THEN conjunct2, THEN conjunct1, rule_format, OF hB, THEN conjunct2]
  have rB: "FallbackStorage_exists example_gsc ?sB ''zap.txt'' example_world
            = (Inl (raised_on_count 1 [(KStr ''stores.Broken'', ?e0)]), ?w1)"
    using tB by (simp only: cB)

  have hC: "listdir_loop (get_backend_methods example_gsc ?sA b_listdir) '''' [] [] [] example_world
              = (([], [], [(KStr ''stores.Broken'', ?e1)]), ?w2)
            \<and> [(KStr ''stores.Broken'', ?e1)] \<noteq> [] \<and> \<not> py_any [] \<and> \<not> py_any []"
    by (simp add: example_defs digit_char_def py_any_def)
  have cC: "card (fst ` set (failures_of (fst (consult_all
              (get_backend_methods example_gsc ?sA b_listdir) '''' example_world)))) = 1"
    by (simp add: example_defs)
  note tC = t [where gsc = example_gsc and self = ?sA and name = "''''"
      and w = example_world and w' = ?w2 and exceptions = "[(KStr ''stores.Broken'', ?e1)]"
      and directories = "[]" and files = "[]",
      THEN conjunct2, THEN conjunct2, THEN conjunct1, rule_format, OF hC, THEN conjunct2]
  have rC: "FallbackStorage_listdir example_gsc ?sA '''' example_world
            = (Inl (raised_on_count 1 [(KStr ''stores.Broken'', ?e1)]), ?w2)"
    using tC by (simp only: cC)

  have hD: "\<not> in_data_migration ?sD
            \<and> url_loop (get_backends example_gsc ?sD) ''zap.txt'' [] example_world
              = (Fallthrough [(KStr ''stores.Unlinkable'', ?e1)], ?w2)
            \<and> [(KStr ''stores.Unlinkable'', ?e1)] \<noteq> []"
    by (simp add: example_defs digit_char_def)
  have cD: "card (fst ` set (url_failures (get_backends example_gsc ?sD) ''zap.txt'' example_world)) = 1"
    by (simp add: example_defs)
  note tD = t [where gsc = example_gsc and self = ?sD and name = "''zap.txt''"
      and w = example_world and w' = ?w2 and exceptions = "[(KStr ''stores.Unlinkable'', ?e1)]",
      THEN conjunct2, THEN conjunct2, THEN conjunct2, THEN conjunct1, rule_format, OF hD, THEN conjunct2]
  have rD: "FallbackStorage_url example_gsc ?sD ''zap.txt'' example_world
            = (Inl (raised_on_count 1 [(KStr ''stores.Unlinkable'', ?e1)]), ?w2)"
    using tD by (simp only: cD)

  have hE: "in_data_migration ?sE
            \<and> open_loop example_gsc ?sE 0 (get_backend_methods example_gsc ?sE b_open)
                ''zap.txt'' ''rb'' None [] example_world []
              = ((Fallthrough [(KStr ''stores.Primary'', not_found)], None), example_world, [])
            \<and> [(KStr ''stores.Primary'', not_found)] \<noteq> []"
    by (simp add: example_defs)
  have cE: "card (fst ` set (open_failures ?sE 0 (get_backend_methods example_gsc ?sE b_open)
              ''zap.txt'' ''rb'' example_world)) = 1"
    by (simp add: example_defs)
  note tE = t [where gsc = example_gsc and self = ?sE and name = "''zap.txt''" and mode = "''rb''"
      and w = example_world and w' = example_world and exceptions = "[(KStr ''stores.Primary'', not_found)]"
      and log = "[]" and log' = "[]" and result = None,
      THEN conjunct2, THEN conjunct2, THEN conjunct2, THEN conjunct2, rule_format, OF hE, THEN conjunct2]
  have rE: "FallbackStorage_open example_gsc ?sE ''zap.txt'' ''rb'' example_world []
            = (Inl (raised_on_count 1 [(KStr ''stores.Primary'', not_found)]), example_world, [])"
    using tE by (simp only: cE)

  from rA rB rC rD rE show ?thesis by (intro conjI)
qed

section \<open>Policy D: \<open>url\<close> outside migration mode\<close>

lemma url_loop_append:
  "url_loop xs name d w = (Fallthrough d', w') \<Longrightarrow>
   url_loop (xs @ ys) name d w = url_loop ys name d' w'"
proof (induction xs arbitrary: d w)
  case Nil
  then show ?case by simp
next
  case (Cons p xs)
  obtain c b where p: "p = (c, b)" by (cases p)
  show ?case
  proof (cases "b_url b")
    case None
    with Cons p show ?thesis by simp
  next
    case u: (Some backend_url)
    show ?thesis
    proof (cases "b_exists b")
      case None
      with Cons p u show ?thesis by simp
    next
      case ex: (Some backend_exists)
      obtain r w1 where r: "backend_exists name w = (r, w1)" by (cases "backend_exists name w")
      show ?thesis
      proof (cases r)
        case (Inl e)
        with Cons.prems p u ex r show ?thesis by simp
      next
        case (Inr found)
        show ?thesis
        proof (cases found)
          case False
          with Cons p u ex r Inr show ?thesis by simp
        next
          case True
          obtain r2 w2 where r2: "backend_url name w1 = (r2, w2)" by (cases "backend_url name w1")
          with Cons p u ex r Inr True show ?thesis by (cases r2) simp_all
        qed
      qed
    qed
  qed
qed

text \<open>
  Claim C6, as stated: a backend whose \<open>exists(name)\<close> raises is skipped and the scan
  goes on. Here the first backend's \<open>exists\<close> raises and the second backend holds the
  file and would build its URL; the caller gets the first backend's exception.
\<close>

theorem url_exists_failure_counterexample:
  "FallbackStorage_url example_gsc
     \<lparr>backend_classes = [KStr ''stores.Broken'', KStr ''stores.Secondary''], in_data_migration = False\<rparr>
     ''foo.txt'' example_world
   = (Inl (Exn (BackendError ''IOError'') ''unreachable, attempt 0''), example_world\<lparr>attempts := 1\<rparr>)"
  by (simp add: FallbackStorage_url_def digit_char_def example_defs)

text \<open>
  Claim C6, amended. Outside migration mode, when the scan of \<open>url(name)\<close> reaches a
  backend that has both \<open>url\<close> and \<open>exists\<close> and whose \<open>exists(name)\<close> raises, that
  exception is raised to the caller unchanged: the backend is not skipped, the backends
  after it are not consulted, and the failures recorded before it are dropped.
\<close>

theorem url_propagates_exists_failure:
  assumes "\<not> in_data_migration self"
    and "backend_classes self = pre @ backend_class # post"
    and "url_loop (get_backends gsc (self\<lparr>backend_classes := pre\<rparr>)) name [] w = (Fallthrough exceptions, w')"
    and "b_url (gsc backend_class) = Some backend_url"
    and "b_exists (gsc backend_class) = Some backend_exists"
    and "backend_exists name w' = (Inl e, w'')"
  shows "FallbackStorage_url gsc self name w = (Inl e, w'')"
proof -
  let ?post = "get_backends gsc (self\<lparr>backend_classes := post\<rparr>)"
  have "url_loop (get_backends gsc self) name [] w =
        url_loop ((backend_class, gsc backend_class) # ?post) name exceptions w'"
    unfolding get_backends_split[OF assms(2)] using assms(3) by (rule url_loop_append)
  also have "\<dots> = (Raise e, w'')"
    using assms(4,5,6) by simp
  finally show ?thesis using assms(1) by (simp add: FallbackStorage_url_def)
qed

theorem url_propagates_exists_failure_witness:
  "FallbackStorage_url example_gsc
     \<lparr>backend_classes = [KStr ''stores.Primary'', KStr ''stores.Broken'', KStr ''stores.Secondary''],
      in_data_migration = False\<rparr>
     ''foo.txt'' example_world
   = (Inl (unreachable example_world), example_world\<lparr>attempts := 1\<rparr>)"
proof -
  let ?self = "\<lparr>backend_classes = [KStr ''stores.Primary'', KStr ''stores.Broken'', KStr ''stores.Secondary''],
                in_data_migration = False\<rparr>"
  let ?m = "\<lambda>name w. (Inl (unreachable w) :: exn + bool, w\<lparr>attempts := attempts w + 1\<rparr>)"
  let ?u = "\<lambda>name w. (Inl (unreachable w) :: exn + string, w\<lparr>attempts := attempts w + 1\<rparr>)"
  have a: "\<not> in_data_migration ?self" by simp
  have b: "backend_classes ?self = [KStr ''stores.Primary''] @ KStr ''stores.Broken'' # [KStr ''stores.Secondary'']"
    by simp
  have c: "url_loop (get_backends example_gsc (?self\<lparr>backend_classes := [KStr ''stores.Primary'']\<rparr>))
             ''foo.txt'' [] example_world = (Fallthrough [], example_world)"
    by (simp add: example_defs)
  have d: "b_url (example_gsc (KStr ''stores.Broken'')) = Some ?u"
    by (simp add: example_defs)
  have e: "b_exists (example_gsc (KStr ''stores.Broken'')) = Some ?m"
    by (simp add: example_defs)
  have f: "?m ''foo.txt'' example_world = (Inl (unreachable example_world), example_world\<lparr>attempts := 1\<rparr>)"
    by (simp add: example_defs)
  show ?thesis
    by (rule url_propagates_exists_failure
         [where self = ?self and pre = "[KStr ''stores.Primary'']" and backend_class = "KStr ''stores.Broken''"
            and post = "[KStr ''stores.Secondary'']" and gsc = example_gsc and name = "''foo.txt''"
            and w = example_world and w' = example_world and exceptions = "[]"
            and backend_url = ?u and backend_exists = ?m and e = "unreachable example_world"
            and w'' = "example_world\<lparr>attempts := 1\<rparr>", OF a b c d e f])
qed

text \<open>
  Claim C10. Outside migration mode, when the scan of \<open>url(name)\<close> returned nothing and
  recorded no failure, \<open>url\<close> is called on the last configured backend. If that call
  raises an \<open>AttributeError\<close>, the caller gets the error "No backend found with the
  method `url`"; any other exception it raises reaches the caller as it is, not through
  the single-or-aggregate rule.
\<close>

theorem url_terminal_fallback_converts_only_AttributeError:
  assumes "\<not> in_data_migration self"
    and "url_loop (get_backends gsc self) name [] w = (Fallthrough [], w')"
    and "backend_classes self \<noteq> []"
    and "b_url (gsc (last (backend_classes self))) = Some last_url"
    and "last_url name w' = (Inl e, w'')"
  shows "FallbackStorage_url gsc self name w =
           (Inl (if exn_class e = AttributeError then no_url_error else e), w'')"
  using assms by (simp add: FallbackStorage_url_def url_last_backend_def)

theorem url_terminal_fallback_converts_only_AttributeError_witness:
  "FallbackStorage_url example_gsc
     \<lparr>backend_classes = [KStr ''stores.Primary'', KStr ''stores.UrlIOError''], in_data_migration = False\<rparr>
     ''zap.txt'' example_world
   = (Inl (Exn (BackendError ''IOError'') ''cannot build url''), example_world)
   \<and> FallbackStorage_url example_gsc
     \<lparr>backend_classes = [KStr ''stores.Primary'', KStr ''stores.UrlAttributeError''], in_data_migration = False\<rparr>
     ''zap.txt'' example_world
   = (Inl no_url_error, example_world)"
proof -
  let ?s1 = "\<lparr>backend_classes = [KStr ''stores.Primary'', KStr ''stores.UrlIOError''], in_data_migration = False\<rparr>"
  let ?s2 = "\<lparr>backend_classes = [KStr ''stores.Primary'', KStr ''stores.UrlAttributeError''], in_data_migration = False\<rparr>"
  let ?u = "\<lambda>cls name (w :: world). (Inl (Exn cls ''cannot build url'') :: exn + string, w)"
  note t = url_terminal_fallback_converts_only_AttributeError
  have a1: "\<not> in_data_migration ?s1" and a2: "\<not> in_data_migration ?s2" by simp_all
  have b1: "url_loop (get_backends example_gsc ?s1) ''zap.txt'' [] example_world = (Fallthrough [], example_world)"
    by (simp add: example_defs)
  have b2: "url_loop (get_backends example_gsc ?s2) ''zap.txt'' [] example_world = (Fallthrough [], example_world)"
    by (simp add: example_defs)
  have c1: "backend_classes ?s1 \<noteq> []" and c2: "backend_classes ?s2 \<noteq> []" by simp_all
  have d1: "b_url (example_gsc (last (backend_classes ?s1))) = Some (?u (BackendError ''IOError''))"
    by (simp add: example_defs)
  have d2: "b_url (example_gsc (last (backend_classes ?s2))) = Some (?u AttributeError)"
    by (simp add: example_defs)
  have e1: "?u (BackendError ''IOError'') ''zap.txt'' example_world
            = (Inl (Exn (BackendError ''IOError'') ''cannot build url''), example_world)"
    by simp
  have e2: "?u AttributeError ''zap.txt'' example_world
            = (Inl (Exn AttributeError ''cannot build url''), example_world)"
    by simp
  note t1 = t [where self = ?s1 and gsc = example_gsc and name = "''zap.txt''" and w = example_world
                and w' = example_world and last_url = "?u (BackendError ''IOError'')"
                and e = "Exn (BackendError ''IOError'') ''cannot build url''" and w'' = example_world,
               OF a1 b1 c1 d1 e1]
  note t2 = t [where self = ?s2 and gsc = example_gsc and name = "''zap.txt''" and w = example_world
                and w' = example_world and last_url = "?u AttributeError"
                and e = "Exn AttributeError ''cannot build url''" and w'' = example_world,
               OF a2 b2 c2 d2 e2]
  from t1 t2 show ?thesis by simp
qed

section \<open>Policy E: \<open>open\<close> in migration mode\<close>

lemma open_loop_skips:
  "consult_all ms (name, Some mode) w = (outs, w') \<Longrightarrow>
   \<forall>(k, r) \<in> set outs. (case r of Inl e \<Rightarrow> True | Inr f \<Rightarrow> \<not> py_bool f) \<Longrightarrow>
   \<exists>result' d'. \<forall>rest.
     open_loop gsc self i (ms @ rest) name mode result d w log =
     open_loop gsc self (i + length ms) rest name mode result' d' w' log"
proof (induction ms arbitrary: i result d w outs w')
  case Nil
  then show ?case by auto
next
  case (Cons p ms)
  obtain c m where p: "p = (c, m)" by (cases p)
  obtain r w1 where m: "m (name, Some mode) w = (r, w1)" by (cases "m (name, Some mode) w")
  obtain rs w2 where rest: "consult_all ms (name, Some mode) w1 = (rs, w2)"
    by (cases "consult_all ms (name, Some mode) w1")
  from Cons.prems(1) p m rest have outs: "outs = (c, r) # rs" and w': "w' = w2" by auto
  from Cons.prems(2) outs
  have r: "case r of Inl e \<Rightarrow> True | Inr f \<Rightarrow> \<not> py_bool f"
    and rs: "\<forall>(k, r) \<in> set rs. (case r of Inl e \<Rightarrow> True | Inr f \<Rightarrow> \<not> py_bool f)"
    by auto
  show ?case
  proof (cases r)
    case (Inl e)
    from Cons.IH[OF rest rs, of "i + 1" result "dict_setitem d c e"]
    obtain result' d' where
      "\<forall>rest. open_loop gsc self (i + 1) (ms @ rest) name mode result (dict_setitem d c e) w1 log =
              open_loop gsc self (i + 1 + length ms) rest name mode result' d' w2 log"
      by blast
    with p m Inl w' show ?thesis by (intro exI[of _ result'] exI[of _ d']) simp
  next
    case (Inr f)
    with r have nf: "\<not> py_bool f" by simp
    from Cons.IH[OF rest rs, of "i + 1" f d]
    obtain result' d' where
      "\<forall>rest. open_loop gsc self (i + 1) (ms @ rest) name mode f d w1 log =
              open_loop gsc self (i + 1 + length ms) rest name mode result' d' w2 log"
      by blast
    with p m Inr nf w' show ?thesis by (intro exI[of _ result'] exI[of _ d']) simp
  qed
qed

text \<open>
  Claim C2, as stated: every name stored only in a non-primary backend is returned as
  its content and copied into the primary backend, and no failure of the copy reaches
  the caller. Two runs where this fails. With a primary backend that can be written but
  has no \<open>open\<close>, the second backend is the first one consulted, the counter of
  \<open>enumerate\<close> is 0, and its handle is returned as it is with nothing saved. With a
  backend whose handle reads as text, \<open>BytesIO(content)\<close> raises \<open>TypeError\<close> inside the
  outer \<open>try\<close>: it is recorded as that backend's failure and raised in the aggregate.
\<close>

theorem open_migration_counterexample:
  "FallbackStorage_open example_gsc
     \<lparr>backend_classes = [KStr ''stores.WriteOnly'', KStr ''stores.Secondary''], in_data_migration = True\<rparr>
     ''foo.txt'' ''rb'' example_world []
   = (Inr (Some (File ''foo.txt'' (Inr (Bytes ''test-foo'')))), example_world, [])
   \<and> FallbackStorage_open example_gsc
     \<lparr>backend_classes = [KStr ''stores.Primary'', KStr ''stores.Text''], in_data_migration = True\<rparr>
     ''foo.txt'' ''rb'' example_world []
   = (Inl (Exn PlainException
        (''File not found: stores.Primary'' @ [CHR 0x0A] @
         ''a bytes-like object is required, not '' @ [CHR 0x27] @ ''str'' @ [CHR 0x27] @ '': stores.Text'')),
      example_world, [])"
  by (simp add: FallbackStorage_open_def raise_exceptions_def concatenate_exceptions_def
        newline_def example_defs)

text \<open>
  Claim C2, amended. In migration mode, take a backend that is not the first one
  consulted for \<open>open\<close>: every backend consulted before it raised or returned nothing,
  and its own \<open>open(name, 'rb')\<close> returns a handle whose \<open>read()\<close> gives the bytes
  \<open>content\<close>. Then \<open>open(name, 'rb')\<close> returns an in-memory file with that content and
  name, and \<open>save(name, content)\<close> is called on the primary backend (the first
  configured one) in the world the read left. Whether that save succeeds, raises, or the
  primary backend has no \<open>save\<close> at all, the caller gets the same file and no
  exception; a failed save only adds a line to the log.
\<close>

theorem open_migration_promotes_to_primary:
  assumes "in_data_migration self"
    and "backend_classes self = pre @ backend_class # post"
    and "consult_all (get_backend_methods gsc (self\<lparr>backend_classes := pre\<rparr>) b_open)
           (name, Some ''rb'') w = (outs, w')"
    and "outs \<noteq> []"
    and "\<forall>(k, r) \<in> set outs. (case r of Inl e \<Rightarrow> True | Inr f \<Rightarrow> \<not> py_bool f)"
    and "b_open (gsc backend_class) = Some backend_method"
    and "backend_method (name, Some ''rb'') w' = (Inr (Some f), w'')"
    and "file_bool f"
    and "file_read f = Inr (Bytes content)"
  shows "FallbackStorage_open gsc self name ''rb'' w log =
           (Inr (Some (ContentFile (Bytes content) name)),
            (case b_save (gsc (hd (backend_classes self))) of
               None \<Rightarrow> (w'', log @ [save_failed_message name])
             | Some primary_save \<Rightarrow>
                 (case primary_save (name, BytesIO content) w'' of
                    (Inr stored, w3) \<Rightarrow> (w3, log)
                  | (Inl e, w3) \<Rightarrow> (w3, log @ [save_failed_message name]))))"
proof -
  let ?pre = "get_backend_methods gsc (self\<lparr>backend_classes := pre\<rparr>) b_open"
  let ?post = "get_backend_methods gsc (self\<lparr>backend_classes := post\<rparr>) b_open"
  have ms: "get_backend_methods gsc self b_open = ?pre @ (backend_class, backend_method) # ?post"
    using assms(2,6) by (rule get_backend_methods_split)
  from assms(3,4) have len: "length ?pre > 0" by (cases ?pre) auto
  from open_loop_skips[OF assms(3,5), of gsc self 0 None "[]" log]
  obtain result' d' where skip:
    "open_loop gsc self 0 (?pre @ (backend_class, backend_method) # ?post) name ''rb'' None [] w log =
     open_loop gsc self (0 + length ?pre) ((backend_class, backend_method) # ?post) name ''rb''
       result' d' w' log"
    by blast
  have classes: "backend_classes self \<noteq> []" using assms(2) by auto
  then have prim: "get_primary_backend gsc self = Inr (gsc (hd (backend_classes self)))"
    by (cases "backend_classes self") (simp_all add: get_primary_backend_def get_backends_def)
  obtain stored w3 log3 where save:
    "save_to_primary_backend gsc self name (BytesIO content) w'' log = (stored, w3, log3)"
    by (cases "save_to_primary_backend gsc self name (BytesIO content) w'' log")
  have hit: "open_loop gsc self (0 + length ?pre) ((backend_class, backend_method) # ?post) name ''rb''
       result' d' w' log = ((Return (Some (ContentFile (Bytes content) name)), Some (ContentFile (Bytes content) name)), w3, log3)"
    using assms(1,7,8,9) len save by simp
  have fin: "(w3, log3) =
        (case b_save (gsc (hd (backend_classes self))) of
               None \<Rightarrow> (w'', log @ [save_failed_message name])
             | Some primary_save \<Rightarrow>
                 (case primary_save (name, BytesIO content) w'' of
                    (Inr stored, w3) \<Rightarrow> (w3, log)
                  | (Inl e, w3) \<Rightarrow> (w3, log @ [save_failed_message name])))"
    using save prim by (auto simp: save_to_primary_backend_def split: option.splits sum.splits prod.splits)
  show ?thesis
    unfolding FallbackStorage_open_def ms using assms(1) skip hit fin by simp
qed

theorem open_migration_promotes_to_primary_witness:
  "FallbackStorage_open example_gsc
     \<lparr>backend_classes = [KStr ''stores.Primary'', KStr ''stores.Secondary''], in_data_migration = True\<rparr>
     ''foo.txt'' ''rb'' example_world []
   = (Inr (Some (ContentFile (Bytes ''test-foo'') ''foo.txt'')),
      example_world\<lparr>primary_files := [(''foo.txt'', ''test-foo''), (''bar.txt'', ''test-bar'')]\<rparr>,
      [])
   \<and> FallbackStorage_open example_gsc
     \<lparr>backend_classes = [KStr ''stores.WriteProtected'', KStr ''stores.Secondary''], in_data_migration = True\<rparr>
     ''foo.txt'' ''rb'' example_world []
   = (Inr (Some (ContentFile (Bytes ''test-foo'') ''foo.txt'')), example_world, [save_failed_message ''foo.txt''])"
proof -
  let ?s1 = "\<lparr>backend_classes = [KStr ''stores.Primary'', KStr ''stores.Secondary''], in_data_migration = True\<rparr>"
  let ?s2 = "\<lparr>backend_classes = [KStr ''stores.WriteProtected'', KStr ''stores.Secondary''], in_data_migration = True\<rparr>"
  let ?m = "\<lambda>(name, mode :: string option) w.
          case map_of (secondary_files w) name of
            None \<Rightarrow> (Inl not_found, w)
          | Some c \<Rightarrow> (Inr (Some (File name (Inr (Bytes c)))), w)"
  let ?outs = "[(KStr ''stores.Primary'', Inl not_found :: exn + pyfile option)]"
  let ?outs2 = "[(KStr ''stores.WriteProtected'', Inl not_found :: exn + pyfile option)]"
  let ?f = "File ''foo.txt'' (Inr (Bytes ''test-foo''))"
  note t = open_migration_promotes_to_primary
  have a1: "in_data_migration ?s1" and a2: "in_data_migration ?s2" by simp_all
  have b1: "backend_classes ?s1 = [KStr ''stores.Primary''] @ KStr ''stores.Secondary'' # []" by simp
  have b2: "backend_classes ?s2 = [KStr ''stores.WriteProtected''] @ KStr ''stores.Secondary'' # []" by simp
  have c1: "consult_all (get_backend_methods example_gsc (?s1\<lparr>backend_classes := [KStr ''stores.Primary'']\<rparr>) b_open)
              (''foo.txt'', Some ''rb'') example_world = (?outs, example_world)"
    by (simp add: example_defs)
  have c2: "consult_all (get_backend_methods example_gsc (?s2\<lparr>backend_classes := [KStr ''stores.WriteProtected'']\<rparr>) b_open)
              (''foo.txt'', Some ''rb'') example_world = (?outs2, example_world)"
    by (simp add: example_defs)
  have d1: "?outs \<noteq> []" and d2: "?outs2 \<noteq> []" by simp_all
  have e1: "\<forall>(k, r) \<in> set ?outs. (case r of Inl e \<Rightarrow> True | Inr f \<Rightarrow> \<not> py_bool f)" by simp
  have e2: "\<forall>(k, r) \<in> set ?outs2. (case r of Inl e \<Rightarrow> True | Inr f \<Rightarrow> \<not> py_bool f)" by simp
  have f: "b_open (example_gsc (KStr ''stores.Secondary'')) = Some ?m"
    by (simp add: example_defs)
  have g: "?m (''foo.txt'', Some ''rb'') example_world = (Inr (Some ?f), example_world)"
    by (simp add: example_defs)
  have h: "file_bool ?f" by simp
  have i: "file_read ?f = Inr (Bytes ''test-foo'')" by simp
  note t1 = t [where self = ?s1 and pre = "[KStr ''stores.Primary'']" and backend_class = "KStr ''stores.Secondary''"
       and post = "[]" and gsc = example_gsc and name = "''foo.txt''" and w = example_world
       and outs = ?outs and w' = example_world and backend_method = ?m and f = ?f
       and w'' = example_world and content = "''test-foo''" and log = "[]",
       OF a1 b1 c1 d1 e1 f g h i]
  note t2 = t [where self = ?s2 and pre = "[KStr ''stores.WriteProtected'']" and backend_class = "KStr ''stores.Secondary''"
       and post = "[]" and gsc = example_gsc and name = "''foo.txt''" and w = example_world
       and outs = ?outs2 and w' = example_world and backend_method = ?m and f = ?f
       and w'' = example_world and content = "''test-foo''" and log = "[]",
       OF a2 b2 c2 d2 e2 f g h i]
  have p1: "FallbackStorage_open example_gsc ?s1 ''foo.txt'' ''rb'' example_world []
     = (Inr (Some (ContentFile (Bytes ''test-foo'') ''foo.txt'')),
        example_world\<lparr>primary_files := [(''foo.txt'', ''test-foo''), (''bar.txt'', ''test-bar'')]\<rparr>, [])"
    unfolding t1 by (simp add: example_defs)
  have p2: "FallbackStorage_open example_gsc ?s2 ''foo.txt'' ''rb'' example_world []
     = (Inr (Some (ContentFile (Bytes ''test-foo'') ''foo.txt'')), example_world, [save_failed_message ''foo.txt''])"
    unfolding t2 by (simp add: example_defs)
  from p1 p2 show ?thesis by (rule conjI)
qed

end
